theory Spec2Isabelle
  imports Complex_Main
begin

section \<open>JavaScript values\<close>

text \<open>
  The scripts read JSON documents and hand object literals to the Prisma client. A JSON
  scalar is a \<open>jsval\<close>; an object is a map from property names to values, where a
  property that is absent reads as \<open>undefined\<close> (\<open>None\<close>). Numbers are kept as exact
  rationals: the rounding of IEEE doubles is not modelled, and there is no negative zero.
  Strings are lists of ASCII characters.
\<close>

datatype jsnum = NaN | Fin rat | PosInfinity | NegInfinity

datatype jsval = JNull | JBool bool | JNum jsnum | JStr string | JDate "int option"
  \<comment> \<open>\<open>JDate None\<close> is the Invalid Date; \<open>JDate (Some t)\<close> has time value \<open>t\<close> in ms\<close>

type_synonym obj = "string \<rightharpoonup> jsval"

datatype console = ConsoleLog string | ConsoleWarn string | ConsoleError string

datatype exn = TypeError | RangeError | PrismaError string
  \<comment> \<open>what a \<open>catch\<close> receives; \<open>PrismaError\<close> carries the store's message\<close>

text \<open>An object literal \<open>{k1: e1, ...}\<close>; a property whose value is \<open>undefined\<close> counts as absent.\<close>

definition obj_of :: "(string \<times> jsval option) list \<Rightarrow> obj" where
  "obj_of kvs = (\<lambda>k. case map_of kvs k of None \<Rightarrow> None | Some v \<Rightarrow> v)"

text \<open>ToBoolean.\<close>

definition truthy :: "jsval option \<Rightarrow> bool" where
  "truthy v =
     (case v of
        None \<Rightarrow> False
      | Some JNull \<Rightarrow> False
      | Some (JBool b) \<Rightarrow> b
      | Some (JNum n) \<Rightarrow> (n \<noteq> NaN \<and> n \<noteq> Fin 0)
      | Some (JStr s) \<Rightarrow> (s \<noteq> [])
      | Some (JDate d) \<Rightarrow> True)"

subsection \<open>Digits and \<open>parseFloat\<close>\<close>

definition is_digit :: "char \<Rightarrow> bool" where
  "is_digit c = (c \<in> set ''0123456789'')"

definition digit_val :: "char \<Rightarrow> int" where
  "digit_val c = int (of_char c) - 48"

text \<open>\<open>parseInt(s, 10)\<close> on a string of decimal digits.\<close>

definition parseInt10 :: "string \<Rightarrow> int" where
  "parseInt10 s = foldl (\<lambda>a c. 10 * a + digit_val c) 0 s"

definition is_space :: "char \<Rightarrow> bool" where
  "is_space c = (of_char c \<in> {9, 10, 11, 12, 13, 32 :: nat})"

definition exponent_part :: "string \<Rightarrow> int" where
  "exponent_part s =
     (case s of
        [] \<Rightarrow> 0
      | c # t \<Rightarrow>
          if c = CHR ''e'' \<or> c = CHR ''E'' then
            (case t of
               [] \<Rightarrow> 0
             | sg # u \<Rightarrow>
                 if sg = CHR ''-'' then
                   (if takeWhile is_digit u = [] then 0 else - parseInt10 (takeWhile is_digit u))
                 else if sg = CHR ''+'' then parseInt10 (takeWhile is_digit u)
                 else parseInt10 (takeWhile is_digit t))
          else 0)"

definition scale10 :: "rat \<Rightarrow> int \<Rightarrow> rat" where
  "scale10 q e = (if 0 \<le> e then q * 10 ^ nat e else q / 10 ^ nat (- e))"

text \<open>
  The longest prefix that is a StrUnsignedDecimalLiteral, and its value: \<open>Infinity\<close>,
  digits with an optional fraction and exponent, or a fraction that starts with the dot.
\<close>

definition unsigned_literal :: "string \<Rightarrow> jsnum" where
  "unsigned_literal s =
     (if take 8 s = ''Infinity'' then PosInfinity
      else
        let ip = takeWhile is_digit s; r1 = dropWhile is_digit s;
            dot = (r1 \<noteq> [] \<and> hd r1 = CHR ''.'');
            fp = (if dot then takeWhile is_digit (tl r1) else []);
            r2 = (if dot then dropWhile is_digit (tl r1) else r1)
        in if ip = [] \<and> fp = [] then NaN
           else Fin (scale10
                  (of_int (parseInt10 ip) + of_int (parseInt10 fp) / 10 ^ length fp)
                  (exponent_part r2)))"

definition negate :: "jsnum \<Rightarrow> jsnum" where
  "negate n =
     (case n of NaN \<Rightarrow> NaN | Fin q \<Rightarrow> Fin (- q)
      | PosInfinity \<Rightarrow> NegInfinity | NegInfinity \<Rightarrow> PosInfinity)"

definition parseFloat_str :: "string \<Rightarrow> jsnum" where
  "parseFloat_str s =
     (let t = dropWhile is_space s
      in case t of
           [] \<Rightarrow> NaN
         | c # u \<Rightarrow>
             if c = CHR ''-'' then negate (unsigned_literal u)
             else if c = CHR ''+'' then unsigned_literal u
             else unsigned_literal t)"

text \<open>
  \<open>parseFloat(v)\<close> converts its argument to a string first. A number prints and reads
  back as itself; \<open>undefined\<close>, \<open>null\<close>, booleans and dates print as text that starts
  with a letter.
\<close>

definition parseFloat :: "jsval option \<Rightarrow> jsnum" where
  "parseFloat v =
     (case v of
        Some (JStr s) \<Rightarrow> parseFloat_str s
      | Some (JNum n) \<Rightarrow> n
      | _ \<Rightarrow> NaN)"

text \<open>\<open>parseFloat(x) || null\<close>.\<close>

definition or_null :: "jsnum \<Rightarrow> jsval" where
  "or_null n = (if truthy (Some (JNum n)) then JNum n else JNull)"

section \<open>Dates\<close>

text \<open>
  Time values are integers, the milliseconds since 1970-01-01T00:00:00Z. The day and
  year arithmetic is that of the language standard (section "Time Values and Time Range").
\<close>

definition msPerDay :: int where
  "msPerDay = 86400000"

definition DayFromYear :: "int \<Rightarrow> int" where
  "DayFromYear y =
     365 * (y - 1970) + (y - 1969) div 4 - (y - 1901) div 100 + (y - 1601) div 400"

definition DaysInYear :: "int \<Rightarrow> int" where
  "DaysInYear y =
     (if y mod 4 \<noteq> 0 then 365 else if y mod 100 \<noteq> 0 then 366
      else if y mod 400 \<noteq> 0 then 365 else 366)"

definition InLeapYear :: "int \<Rightarrow> int" where
  "InLeapYear y = (if DaysInYear y = 366 then 1 else 0)"

text \<open>
  The year of a day number: the largest \<open>y\<close> with \<open>DayFromYear y \<le> d\<close>, found from an
  estimate that is off by at most one (lemma \<open>YearFromDay_unique\<close>).
\<close>

definition YearFromDay :: "int \<Rightarrow> int" where
  "YearFromDay d =
     (let y = 1970 + (400 * d) div 146097
      in if d < DayFromYear y then y - 1
         else if DayFromYear (y + 1) \<le> d then y + 1 else y)"

definition month_start :: "int \<Rightarrow> int \<Rightarrow> int" where
  "month_start m L =
     (if m = 0 then 0 else if m = 1 then 31 else if m = 2 then 59 + L
      else if m = 3 then 90 + L else if m = 4 then 120 + L else if m = 5 then 151 + L
      else if m = 6 then 181 + L else if m = 7 then 212 + L else if m = 8 then 243 + L
      else if m = 9 then 273 + L else if m = 10 then 304 + L else 334 + L)"

definition MonthFromDay :: "int \<Rightarrow> int" where
  "MonthFromDay dy =
     (let y = YearFromDay dy; w = dy - DayFromYear y; L = InLeapYear y
      in if w < 31 then 0 else if w < 59 + L then 1 else if w < 90 + L then 2
         else if w < 120 + L then 3 else if w < 151 + L then 4 else if w < 181 + L then 5
         else if w < 212 + L then 6 else if w < 243 + L then 7 else if w < 273 + L then 8
         else if w < 304 + L then 9 else if w < 334 + L then 10 else 11)"

definition DateFromDay :: "int \<Rightarrow> int" where
  "DateFromDay dy =
     (let y = YearFromDay dy
      in dy - DayFromYear y - month_start (MonthFromDay dy) (InLeapYear y) + 1)"

definition MakeDay :: "int \<Rightarrow> int \<Rightarrow> int \<Rightarrow> int" where
  "MakeDay year month dt =
     (let ym = year + month div 12; mn = month mod 12
      in DayFromYear ym + month_start mn (InLeapYear ym) + dt - 1)"

definition MakeTime :: "int \<Rightarrow> int \<Rightarrow> int \<Rightarrow> int \<Rightarrow> int" where
  "MakeTime h m s ms = h * 3600000 + m * 60000 + s * 1000 + ms"

definition MakeDate :: "int \<Rightarrow> int \<Rightarrow> int" where
  "MakeDate dy tm = dy * msPerDay + tm"

definition TimeClip :: "int \<Rightarrow> int option" where
  "TimeClip t = (if \<bar>t\<bar> > 8640000000000000 then None else Some t)"

text \<open>\<open>Date.UTC\<close>: a year from 0 to 99 stands for 1900 + year.\<close>

definition Date_UTC :: "int \<Rightarrow> int \<Rightarrow> int \<Rightarrow> int \<Rightarrow> int \<Rightarrow> int \<Rightarrow> int option" where
  "Date_UTC y m dt h mi s =
     (let yr = (if 0 \<le> y \<and> y \<le> 99 then 1900 + y else y)
      in TimeClip (MakeDate (MakeDay yr m dt) (MakeTime h mi s 0)))"

definition Day :: "int \<Rightarrow> int" where
  "Day t = t div msPerDay"

definition HourFromTime :: "int \<Rightarrow> int" where
  "HourFromTime t = (t div 3600000) mod 24"

definition MinFromTime :: "int \<Rightarrow> int" where
  "MinFromTime t = (t div 60000) mod 60"

definition SecFromTime :: "int \<Rightarrow> int" where
  "SecFromTime t = (t div 1000) mod 60"

definition msFromTime :: "int \<Rightarrow> int" where
  "msFromTime t = t mod 1000"

definition getUTCMinutes :: "int option \<Rightarrow> int option" where
  "getUTCMinutes d = map_option MinFromTime d"

definition setUTCMinutes :: "int option \<Rightarrow> int option \<Rightarrow> int option" where
  "setUTCMinutes d m =
     (case d of
        None \<Rightarrow> None
      | Some t \<Rightarrow>
          (case m of
             None \<Rightarrow> None
           | Some mi \<Rightarrow>
               TimeClip (MakeDate (Day t)
                 (MakeTime (HourFromTime t) mi (SecFromTime t) (msFromTime t)))))"

text \<open>The calendar fields of a time value, as the \<open>getUTC...\<close> methods report them
  (the month counted from 1).\<close>

record civil =
  c_year :: int
  c_month :: int
  c_day :: int
  c_hour :: int
  c_minute :: int
  c_second :: int

definition utc_fields :: "int \<Rightarrow> civil" where
  "utc_fields t =
     \<lparr>c_year = YearFromDay (Day t), c_month = MonthFromDay (Day t) + 1,
      c_day = DateFromDay (Day t), c_hour = HourFromTime t,
      c_minute = MinFromTime t, c_second = SecFromTime t\<rparr>"

text \<open>The wall clock of an instant in the zone that is \<open>off\<close> minutes ahead of UTC.\<close>

definition wall_clock :: "int \<Rightarrow> int \<Rightarrow> civil" where
  "wall_clock off t = utc_fields (t + off * 60000)"

text \<open>The calendar fields read as UTC: the instant that has these fields, for a valid date.\<close>

definition civil_as_utc :: "civil \<Rightarrow> int" where
  "civil_as_utc c =
     MakeDate (MakeDay (c_year c) (c_month c - 1) (c_day c))
       (MakeTime (c_hour c) (c_minute c) (c_second c) 0)"

definition days_in_month :: "int \<Rightarrow> int \<Rightarrow> int" where
  "days_in_month y m =
     (if m = 2 then 28 + InLeapYear y
      else if m = 4 \<or> m = 6 \<or> m = 9 \<or> m = 11 then 30 else 31)"

definition valid_civil :: "civil \<Rightarrow> bool" where
  "valid_civil c =
     (1 \<le> c_month c \<and> c_month c \<le> 12 \<and> 1 \<le> c_day c \<and>
      c_day c \<le> days_in_month (c_year c) (c_month c) \<and>
      0 \<le> c_hour c \<and> c_hour c \<le> 23 \<and> 0 \<le> c_minute c \<and> c_minute c \<le> 59 \<and>
      0 \<le> c_second c \<and> c_second c \<le> 59)"


subsection \<open>The \<open>Date\<close> constructor\<close>

text \<open>
  Two conversions of the language are taken as they come from the engine that runs the
  scripts: \<open>Date.parse\<close> on a string (engine-defined outside the ISO format; \<open>None\<close> is
  the Invalid Date) and the conversion of a string to a number.
\<close>

record engine =
  date_parse :: "string \<Rightarrow> int option"
  string_to_number :: "string \<Rightarrow> jsnum"

definition truncate_rat :: "rat \<Rightarrow> int" where
  "truncate_rat q = (if 0 \<le> q then \<lfloor>q\<rfloor> else \<lceil>q\<rceil>)"

definition TimeClip_num :: "jsnum \<Rightarrow> int option" where
  "TimeClip_num n =
     (case n of
        Fin q \<Rightarrow> if \<bar>q\<bar> > 8640000000000000 then None else Some (truncate_rat q)
      | _ \<Rightarrow> None)"

definition ToNumber :: "engine \<Rightarrow> jsval option \<Rightarrow> jsnum" where
  "ToNumber E v =
     (case v of
        None \<Rightarrow> NaN
      | Some JNull \<Rightarrow> Fin 0
      | Some (JBool b) \<Rightarrow> Fin (if b then 1 else 0)
      | Some (JNum n) \<Rightarrow> n
      | Some (JStr s) \<Rightarrow> string_to_number E s
      | Some (JDate d) \<Rightarrow> (case d of None \<Rightarrow> NaN | Some t \<Rightarrow> Fin (of_int t)))"

text \<open>\<open>x * 1000\<close>.\<close>

definition times1000 :: "jsnum \<Rightarrow> jsnum" where
  "times1000 n = (case n of Fin q \<Rightarrow> Fin (q * 1000) | _ \<Rightarrow> n)"

text \<open>\<open>new Date(v)\<close> with one argument; \<open>new Date()\<close> is the clock reading, an argument
  of the functions that call it.\<close>

definition new_Date :: "engine \<Rightarrow> jsval option \<Rightarrow> int option" where
  "new_Date E v =
     (case v of
        Some (JStr s) \<Rightarrow> date_parse E s
      | Some (JDate d) \<Rightarrow> d
      | _ \<Rightarrow> TimeClip_num (ToNumber E v))"

section \<open>The date normalizer (store\_projections.js)\<close>

definition all_digits :: "string \<Rightarrow> bool" where
  "all_digits s = list_all is_digit s"

text \<open>
  The regular expression
  \<^verbatim>\<open>^(\d{4})-(\d{2})-(\d{2})T(\d{2}):(\d{2}):(\d{2})([+-]\d{2}:\d{2})$\<close>
  and its seven groups.
\<close>

definition iso_match ::
  "string \<Rightarrow> (string \<times> string \<times> string \<times> string \<times> string \<times> string \<times> string) option" where
  "iso_match s =
     (if length s = 25 \<and> all_digits (take 4 s) \<and> s ! 4 = CHR ''-'' \<and>
         all_digits (take 2 (drop 5 s)) \<and> s ! 7 = CHR ''-'' \<and>
         all_digits (take 2 (drop 8 s)) \<and> s ! 10 = CHR ''T'' \<and>
         all_digits (take 2 (drop 11 s)) \<and> s ! 13 = CHR '':'' \<and>
         all_digits (take 2 (drop 14 s)) \<and> s ! 16 = CHR '':'' \<and>
         all_digits (take 2 (drop 17 s)) \<and>
         (s ! 19 = CHR ''+'' \<or> s ! 19 = CHR ''-'') \<and>
         all_digits (take 2 (drop 20 s)) \<and> s ! 22 = CHR '':'' \<and>
         all_digits (take 2 (drop 23 s))
      then Some (take 4 s, take 2 (drop 5 s), take 2 (drop 8 s), take 2 (drop 11 s),
                 take 2 (drop 14 s), take 2 (drop 17 s), drop 19 s)
      else None)"

text \<open>The offset in minutes, from the group \<open>[+-]HH:MM\<close>.\<close>

definition tzOffsetMinutes :: "string \<Rightarrow> int" where
  "tzOffsetMinutes tzOffset =
     (let tzSign = (if hd tzOffset = CHR ''-'' then - 1 else 1);
          tzHours = parseInt10 (take 2 (drop 1 tzOffset));
          tzMinutes = parseInt10 (take 2 (drop 4 tzOffset))
      in tzSign * (tzHours * 60 + tzMinutes))"

text \<open>
  \<open>parseISODatePreservingTimezone(isoString)\<close>: the time value of the \<open>Date\<close> it
  returns and what it writes to the console. \<open>now\<close> is the reading of the clock.
  A truthy argument that is not a string has no \<open>match\<close> method: the call throws a
  TypeError inside the \<open>try\<close>, and the \<open>catch\<close> logs it and falls back.
\<close>

definition parseISODatePreservingTimezone ::
  "engine \<Rightarrow> int \<Rightarrow> jsval option \<Rightarrow> int option \<times> console list" where
  "parseISODatePreservingTimezone E now isoString =
     (if \<not> truthy isoString then (Some now, [])
      else
        case isoString of
          Some (JStr s) \<Rightarrow>
            (case iso_match s of
               None \<Rightarrow>
                 (new_Date E isoString,
                  [ConsoleWarn (''Warning: Date string doesn't match expected format: '' @ s)])
             | Some (year, month, day, hour, minute, second, tzOffset) \<Rightarrow>
                 let date = Date_UTC (parseInt10 year) (parseInt10 month - 1) (parseInt10 day)
                              (parseInt10 hour) (parseInt10 minute) (parseInt10 second);
                     date' = setUTCMinutes date
                               (map_option (\<lambda>m. m - tzOffsetMinutes tzOffset)
                                  (getUTCMinutes date))
                 in (date', []))
        | _ \<Rightarrow>
            (new_Date E isoString,
             [ConsoleError ''Error parsing ISO date: isoString.match is not a function'']))"

text \<open>The calendar fields and the offset that a matching string spells.\<close>

definition iso_civil :: "string \<Rightarrow> civil" where
  "iso_civil s =
     \<lparr>c_year = parseInt10 (take 4 s), c_month = parseInt10 (take 2 (drop 5 s)),
      c_day = parseInt10 (take 2 (drop 8 s)), c_hour = parseInt10 (take 2 (drop 11 s)),
      c_minute = parseInt10 (take 2 (drop 14 s)),
      c_second = parseInt10 (take 2 (drop 17 s))\<rparr>"

definition iso_offset :: "string \<Rightarrow> int" where
  "iso_offset s = tzOffsetMinutes (drop 19 s)"

section \<open>The store\<close>

text \<open>
  A table is the list of its rows; a row maps column names to values. The Prisma client
  and the database behind it are not part of the repository. Their operations are
  modelled as the client documents them: \<open>upsert\<close> updates the row that the unique
  \<open>where\<close> selects or creates one, \<open>updateMany\<close> and \<open>deleteMany\<close> are single
  statements, a property whose value is \<open>undefined\<close> is left out of the write, and the
  columns \<open>createdAt\<close> and \<open>updatedAt\<close> are filled by the client as the schema declares
  (\<open>@default(now())\<close>, \<open>@updatedAt\<close>). Any call may throw instead (validation, a
  constraint, the connection): the argument \<open>fault\<close> is what it throws, if it does, and a
  call that throws changes nothing. The calls of a batch are taken one after the other,
  in the order of the input.
\<close>

type_synonym row = obj
type_synonym table = "row list"

definition row_matches :: "(string \<times> jsval option) list \<Rightarrow> row \<Rightarrow> bool" where
  "row_matches wh r = list_all (\<lambda>(k, v). v \<noteq> None \<and> r k = v) wh"

text \<open>The key columns are strings in the schema; a \<open>where\<close> without them is rejected.\<close>

definition valid_where :: "(string \<times> jsval option) list \<Rightarrow> bool" where
  "valid_where wh =
     list_all (\<lambda>(k, v). case v of Some (JStr s) \<Rightarrow> True | _ \<Rightarrow> False) wh"

fun update_first :: "(row \<Rightarrow> bool) \<Rightarrow> (row \<Rightarrow> row) \<Rightarrow> table \<Rightarrow> table" where
  "update_first P f [] = []"
| "update_first P f (r # rs) = (if P r then f r # rs else r # update_first P f rs)"

definition touch :: "int \<Rightarrow> obj \<Rightarrow> row \<Rightarrow> row" where
  "touch now data r = (r ++ data)(''updatedAt'' \<mapsto> JDate (Some now))"

definition fresh_row :: "int \<Rightarrow> obj \<Rightarrow> row" where
  "fresh_row now data =
     data(''createdAt'' \<mapsto> JDate (Some now), ''updatedAt'' \<mapsto> JDate (Some now))"

definition upsert ::
  "exn option \<Rightarrow> int \<Rightarrow> (string \<times> jsval option) list \<Rightarrow> obj \<Rightarrow> obj \<Rightarrow> table
     \<Rightarrow> exn + table" where
  "upsert fault now wh upd cre tbl =
     (case fault of
        Some e \<Rightarrow> Inl e
      | None \<Rightarrow>
          if \<not> valid_where wh then Inl (PrismaError ''Invalid where argument'')
          else if list_ex (row_matches wh) tbl
          then Inr (update_first (row_matches wh) (touch now upd) tbl)
          else Inr (tbl @ [fresh_row now cre]))"

definition findMany :: "exn option \<Rightarrow> (string \<times> jsval option) list \<Rightarrow> table \<Rightarrow> exn + row list" where
  "findMany fault wh tbl =
     (case fault of Some e \<Rightarrow> Inl e | None \<Rightarrow> Inr (filter (row_matches wh) tbl))"

definition updateMany ::
  "exn option \<Rightarrow> int \<Rightarrow> (string \<times> jsval option) list \<Rightarrow> obj \<Rightarrow> table
     \<Rightarrow> exn + (nat \<times> table)" where
  "updateMany fault now wh data tbl =
     (case fault of
        Some e \<Rightarrow> Inl e
      | None \<Rightarrow>
          Inr (length (filter (row_matches wh) tbl),
               map (\<lambda>r. if row_matches wh r then touch now data r else r) tbl))"

definition deleteMany :: "exn option \<Rightarrow> (row \<Rightarrow> bool) \<Rightarrow> table \<Rightarrow> exn + (nat \<times> table)" where
  "deleteMany fault P tbl =
     (case fault of
        Some e \<Rightarrow> Inl e
      | None \<Rightarrow> Inr (length (filter P tbl), filter (\<lambda>r. \<not> P r) tbl))"


section \<open>Batches\<close>

text \<open>
  What the callback of a batch returns for one record: \<open>{success: true, id}\<close>, or, from
  its \<open>catch\<close>, \<open>{success: false, error, <name>}\<close> with the value that names the record.
\<close>

datatype outcome = Success "jsval option" | Failure "jsval option" exn

fun is_success :: "outcome \<Rightarrow> bool" where
  "is_success (Success k) = True"
| "is_success (Failure k e) = False"

fun outcome_name :: "outcome \<Rightarrow> jsval option" where
  "outcome_name (Success k) = k"
| "outcome_name (Failure k e) = k"

text \<open>
  \<open>Promise.all(records.map(async (record) => { try {...} catch {...} }))\<close> when every
  callback returns an outcome. \<open>step i r\<close> is the callback on the record at index \<open>i\<close>.
\<close>

fun run_batch ::
  "(nat \<Rightarrow> 'a \<Rightarrow> table \<Rightarrow> outcome \<times> table) \<Rightarrow> nat \<Rightarrow> 'a list \<Rightarrow> table
     \<Rightarrow> outcome list \<times> table" where
  "run_batch step i [] tbl = ([], tbl)"
| "run_batch step i (r # rs) tbl =
     (let (res, tbl') = step i r tbl;
          (ress, tbl'') = run_batch step (Suc i) rs tbl'
      in (res # ress, tbl''))"

text \<open>
  The same with callbacks that may reject. A callback that throws out of its own \<open>catch\<close>
  returns no outcome (\<open>None\<close>); then the promise of the batch rejects, and the script logs
  the error and exits with code 1 without a tally. Which of the writes under way still
  reach the store is not decided by the script, so a rejected batch has no table.
\<close>

fun promise_all ::
  "(nat \<Rightarrow> 'a \<Rightarrow> table \<Rightarrow> (outcome \<times> table) option) \<Rightarrow> nat \<Rightarrow> 'a list \<Rightarrow> table
     \<Rightarrow> (outcome list \<times> table) option" where
  "promise_all callback i [] tbl = Some ([], tbl)"
| "promise_all callback i (r # rs) tbl =
     (case callback i r tbl of
        None \<Rightarrow> None
      | Some (res, tbl') \<Rightarrow>
          (case promise_all callback (Suc i) rs tbl' of
             None \<Rightarrow> None
           | Some (ress, tbl'') \<Rightarrow> Some (res # ress, tbl'')))"

text \<open>The tally that the scripts print after the batch.\<close>

definition successCount :: "outcome list \<Rightarrow> nat" where
  "successCount results = length (filter is_success results)"

definition errors :: "outcome list \<Rightarrow> outcome list" where
  "errors results = filter (\<lambda>r. \<not> is_success r) results"

section \<open>store\_projections.js\<close>

definition projection_update :: "obj \<Rightarrow> int option \<Rightarrow> obj" where
  "projection_update projection parsedStartTime =
     obj_of
       [(''playerName'', projection ''playerName''),
        (''team'', projection ''team''),
        (''position'', projection ''position''),
        (''statType'', projection ''statType''),
        (''lineScore'', projection ''lineScore''),
        (''average'', projection ''average''),
        (''maxValue'', projection ''maxValue''),
        (''gameId'', projection ''gameId''),
        (''startTime'', Some (JDate parsedStartTime)),
        (''status'', projection ''status''),
        (''opponent'', projection ''description''),
        (''imageUrl'', projection ''imageUrl''),
        (''oddsType'', projection ''oddsType'')]"

definition projection_create :: "obj \<Rightarrow> int option \<Rightarrow> obj" where
  "projection_create projection parsedStartTime =
     obj_of
       [(''projectionId'', projection ''projectionId''),
        (''playerName'', projection ''playerName''),
        (''team'', projection ''team''),
        (''position'', projection ''position''),
        (''statType'', projection ''statType''),
        (''lineScore'', projection ''lineScore''),
        (''average'', projection ''average''),
        (''maxValue'', projection ''maxValue''),
        (''gameId'', projection ''gameId''),
        (''startTime'', Some (JDate parsedStartTime)),
        (''status'', projection ''status''),
        (''opponent'', projection ''description''),
        (''imageUrl'', projection ''imageUrl''),
        (''oddsType'', projection ''oddsType'')]"

text \<open>\<open>prisma.projection.upsert\<close> as the callback calls it.\<close>

definition upsert_projection ::
  "engine \<Rightarrow> exn option \<Rightarrow> int \<Rightarrow> obj \<Rightarrow> table \<Rightarrow> exn + table" where
  "upsert_projection E fault now projection tbl =
     (let parsedStartTime = fst (parseISODatePreservingTimezone E now (projection ''startTime''))
      in upsert fault now [(''projectionId'', projection ''projectionId'')]
           (projection_update projection parsedStartTime)
           (projection_create projection parsedStartTime) tbl)"

definition is_string :: "jsval option \<Rightarrow> bool" where
  "is_string v = (case v of Some (JStr s) \<Rightarrow> True | _ \<Rightarrow> False)"

text \<open>
  The callback of \<open>storeProjections\<close> on the record at index \<open>i\<close>. For the first three
  records the debug block runs before the upsert: \<open>rawStartTime.split\<close> throws a
  TypeError when the start time is not a string, and \<open>toISOString\<close> throws a RangeError
  on the Invalid Date.
\<close>

definition store_projection ::
  "engine \<Rightarrow> (nat \<Rightarrow> int) \<Rightarrow> (nat \<Rightarrow> exn option) \<Rightarrow> nat \<Rightarrow> obj \<Rightarrow> table
     \<Rightarrow> outcome \<times> table" where
  "store_projection E clock faults i projection tbl =
     (let rawStartTime = projection ''startTime'';
          parsedStartTime = fst (parseISODatePreservingTimezone E (clock i) rawStartTime)
      in if i < 3 \<and> \<not> is_string rawStartTime
         then (Failure (projection ''projectionId'') TypeError, tbl)
         else if i < 3 \<and> parsedStartTime = None
         then (Failure (projection ''projectionId'') RangeError, tbl)
         else
           case upsert_projection E (faults i) (clock i) projection tbl of
             Inl e \<Rightarrow> (Failure (projection ''projectionId'') e, tbl)
           | Inr tbl' \<Rightarrow> (Success (projection ''projectionId''), tbl'))"

text \<open>
  The elements of the array are JSON values; \<open>None\<close> is the element \<open>null\<close>. On \<open>null\<close>
  the callback throws a TypeError at \<open>projection.startTime\<close>, and its \<open>catch\<close> evaluates
  \<open>projection.projectionId\<close> for the message and throws again: the callback rejects. An
  element that is a number, a string or a boolean has none of the properties and is the
  empty object here.
\<close>

definition projection_callback ::
  "engine \<Rightarrow> (nat \<Rightarrow> int) \<Rightarrow> (nat \<Rightarrow> exn option) \<Rightarrow> nat \<Rightarrow> obj option \<Rightarrow> table
     \<Rightarrow> (outcome \<times> table) option" where
  "projection_callback E clock faults i element tbl =
     (case element of
        None \<Rightarrow> None
      | Some projection \<Rightarrow> Some (store_projection E clock faults i projection tbl))"

text \<open>\<open>storeProjections\<close> after the file is read: the outcomes and the table, or \<open>None\<close>
  when the batch rejects and the script exits with code 1.\<close>

definition storeProjections ::
  "engine \<Rightarrow> (nat \<Rightarrow> int) \<Rightarrow> (nat \<Rightarrow> exn option) \<Rightarrow> obj option list \<Rightarrow> table
     \<Rightarrow> (outcome list \<times> table) option" where
  "storeProjections E clock faults projections tbl =
     promise_all (projection_callback E clock faults) 0 projections tbl"

section \<open>store\_players.js\<close>

definition player_update :: "obj \<Rightarrow> obj" where
  "player_update player =
     obj_of
       [(''position'', player ''position''),
        (''team'', player ''team''),
        (''playerName'', player ''playerName''),
        (''teamID'', player ''teamID'')]"

definition player_create :: "obj \<Rightarrow> obj" where
  "player_create player =
     obj_of
       [(''playerID'', player ''playerID''),
        (''position'', player ''position''),
        (''team'', player ''team''),
        (''playerName'', player ''playerName''),
        (''teamID'', player ''teamID'')]"

definition upsert_player :: "exn option \<Rightarrow> int \<Rightarrow> obj \<Rightarrow> table \<Rightarrow> exn + table" where
  "upsert_player fault now player tbl =
     upsert fault now [(''playerID'', player ''playerID'')]
       (player_update player) (player_create player) tbl"

definition store_player ::
  "(nat \<Rightarrow> int) \<Rightarrow> (nat \<Rightarrow> exn option) \<Rightarrow> nat \<Rightarrow> obj \<Rightarrow> table \<Rightarrow> outcome \<times> table" where
  "store_player clock faults i player tbl =
     (case upsert_player (faults i) (clock i) player tbl of
        Inl e \<Rightarrow> (Failure (player ''playerName'') e, tbl)
      | Inr tbl' \<Rightarrow> (Success (player ''playerID''), tbl'))"

text \<open>On the element \<open>null\<close> the \<open>catch\<close> evaluates \<open>player.playerName\<close> and throws again,
  as in \<open>storeProjections\<close>.\<close>

definition player_callback ::
  "(nat \<Rightarrow> int) \<Rightarrow> (nat \<Rightarrow> exn option) \<Rightarrow> nat \<Rightarrow> obj option \<Rightarrow> table
     \<Rightarrow> (outcome \<times> table) option" where
  "player_callback clock faults i element tbl =
     (case element of
        None \<Rightarrow> None
      | Some player \<Rightarrow> Some (store_player clock faults i player tbl))"

definition storePlayers ::
  "(nat \<Rightarrow> int) \<Rightarrow> (nat \<Rightarrow> exn option) \<Rightarrow> obj option list \<Rightarrow> table
     \<Rightarrow> (outcome list \<times> table) option" where
  "storePlayers clock faults players tbl =
     promise_all (player_callback clock faults) 0 players tbl"

section \<open>The game statistics script\<close>

text \<open>
  The document is \<open>{playerId, games}\<close>; \<open>Object.entries(games)\<close> is the list of the
  pairs of a game id and its statistics.
\<close>

definition gameStatData :: "engine \<Rightarrow> string \<Rightarrow> jsval option \<Rightarrow> obj \<Rightarrow> obj" where
  "gameStatData E gameId playerId gameStat =
     obj_of
       [(''gameId'', Some (JStr gameId)),
        (''playerId'', playerId),
        (''playerName'', gameStat ''longName''),
        (''team'', gameStat ''team''),
        (''teamAbbreviation'', gameStat ''teamAbv''),
        (''teamId'', gameStat ''teamID''),
        (''gameDate'', Some (JDate (new_Date E (gameStat ''game_date'')))),
        (''opponent'', gameStat ''opponent''),
        (''isHome'', gameStat ''is_home''),
        (''points'', Some (JNum (parseFloat (gameStat ''pts'')))),
        (''rebounds'', Some (JNum (parseFloat (gameStat ''reb'')))),
        (''offensiveRebounds'', Some (JNum (parseFloat (gameStat ''OffReb'')))),
        (''defensiveRebounds'', Some (JNum (parseFloat (gameStat ''DefReb'')))),
        (''assists'', Some (JNum (parseFloat (gameStat ''ast'')))),
        (''steals'', Some (JNum (parseFloat (gameStat ''stl'')))),
        (''blocks'', Some (JNum (parseFloat (gameStat ''blk'')))),
        (''turnovers'', Some (JNum (parseFloat (gameStat ''TOV'')))),
        (''personalFouls'', Some (JNum (parseFloat (gameStat ''PF'')))),
        (''technicalFouls'', Some (JNum (parseFloat (gameStat ''tech'')))),
        (''plusMinus'', gameStat ''plusMinus''),
        (''minutesPlayed'', gameStat ''mins''),
        (''fieldGoalsMade'', Some (JNum (parseFloat (gameStat ''fgm'')))),
        (''fieldGoalsAttempted'', Some (JNum (parseFloat (gameStat ''fga'')))),
        (''fieldGoalPercentage'', gameStat ''fgp''),
        (''threePointersMade'', Some (JNum (parseFloat (gameStat ''tptfgm'')))),
        (''threePointersAttempted'', Some (JNum (parseFloat (gameStat ''tptfga'')))),
        (''threePointPercentage'', gameStat ''tptfgp''),
        (''freeThrowsMade'', Some (JNum (parseFloat (gameStat ''ftm'')))),
        (''freeThrowsAttempted'', Some (JNum (parseFloat (gameStat ''fta'')))),
        (''freeThrowPercentage'', gameStat ''ftp''),
        (''fantasyPoints'', gameStat ''fantasyPoints'')]"

text \<open>
  The template \<open>`${gameId}_${playerId}`\<close>. It is stored only when the row is created,
  and the \<open>where\<close> is rejected unless \<open>playerId\<close> is a string, so the text of other
  values is left open.
\<close>

definition derived_id :: "string \<Rightarrow> jsval option \<Rightarrow> jsval option" where
  "derived_id gameId playerId =
     (case playerId of Some (JStr p) \<Rightarrow> Some (JStr (gameId @ ''_'' @ p)) | _ \<Rightarrow> None)"

definition upsert_gameStat ::
  "engine \<Rightarrow> exn option \<Rightarrow> int \<Rightarrow> jsval option \<Rightarrow> string \<times> obj \<Rightarrow> table \<Rightarrow> exn + table" where
  "upsert_gameStat E fault now playerId entry tbl =
     (let gameId = fst entry; data = gameStatData E gameId playerId (snd entry)
      in upsert fault now [(''gameId'', Some (JStr gameId)), (''playerId'', playerId)]
           data (data(''id'' := derived_id gameId playerId)) tbl)"

definition store_gameStat ::
  "engine \<Rightarrow> (nat \<Rightarrow> int) \<Rightarrow> (nat \<Rightarrow> exn option) \<Rightarrow> jsval option \<Rightarrow> nat \<Rightarrow> string \<times> obj
     \<Rightarrow> table \<Rightarrow> outcome \<times> table" where
  "store_gameStat E clock faults playerId i entry tbl =
     (case upsert_gameStat E (faults i) (clock i) playerId entry tbl of
        Inl e \<Rightarrow> (Failure (Some (JStr (fst entry))) e, tbl)
      | Inr tbl' \<Rightarrow> (Success (Some (JStr (fst entry))), tbl'))"

text \<open>
  The statistics of a game may be \<open>null\<close> (\<open>None\<close>): then \<open>gameStat.longName\<close> throws a
  TypeError in the \<open>try\<close>. The \<open>catch\<close> of this script names the failure by the game id,
  which it has at hand, so it returns a failure and the callback never rejects.
\<close>

definition gameStat_callback ::
  "engine \<Rightarrow> (nat \<Rightarrow> int) \<Rightarrow> (nat \<Rightarrow> exn option) \<Rightarrow> jsval option \<Rightarrow> nat
     \<Rightarrow> string \<times> obj option \<Rightarrow> table \<Rightarrow> outcome \<times> table" where
  "gameStat_callback E clock faults playerId i entry tbl =
     (case snd entry of
        None \<Rightarrow> (Failure (Some (JStr (fst entry))) TypeError, tbl)
      | Some gameStat \<Rightarrow> store_gameStat E clock faults playerId i (fst entry, gameStat) tbl)"

definition storeGameStats ::
  "engine \<Rightarrow> (nat \<Rightarrow> int) \<Rightarrow> (nat \<Rightarrow> exn option) \<Rightarrow> jsval option
     \<Rightarrow> (string \<times> obj option) list \<Rightarrow> table \<Rightarrow> outcome list \<times> table" where
  "storeGameStats E clock faults playerId games tbl =
     run_batch (gameStat_callback E clock faults playerId) 0 games tbl"

section \<open>The odds update script\<close>

datatype odds_result =
    NoProjections string   \<comment> \<open>\<open>{success: false, message}\<close>\<close>
  | Updated nat            \<comment> \<open>\<open>{success: true, count}\<close>\<close>
  | UpdateError exn        \<comment> \<open>\<open>{success: false, error}\<close>\<close>

fun success :: "odds_result \<Rightarrow> bool" where
  "success (NoProjections m) = False"
| "success (Updated n) = True"
| "success (UpdateError e) = False"

definition odds_patch :: "engine \<Rightarrow> int \<Rightarrow> obj \<Rightarrow> obj" where
  "odds_patch E now oddsData =
     obj_of
       [(''homeTeam'', oddsData ''homeTeam''),
        (''awayTeam'', oddsData ''awayTeam''),
        (''homeSpread'', Some (or_null (parseFloat (oddsData ''homeSpread'')))),
        (''awaySpread'', Some (or_null (parseFloat (oddsData ''awaySpread'')))),
        (''totalOver'', Some (or_null (parseFloat (oddsData ''totalOver'')))),
        (''totalUnder'', Some (or_null (parseFloat (oddsData ''totalUnder'')))),
        (''homeMoneyline'', oddsData ''homeMoneyline''),
        (''awayMoneyline'', oddsData ''awayMoneyline''),
        (''oddsProvider'', oddsData ''oddsProvider''),
        (''oddsLastUpdated'',
           Some (JDate
             (if truthy (oddsData ''lastUpdated'')
              then TimeClip_num (times1000 (ToNumber E (oddsData ''lastUpdated'')))
              else Some now)))]"

text \<open>
  \<open>updateProjectionsWithOdds(gameId, oddsData)\<close>: the table afterwards and the object
  returned. \<open>fault_find\<close> and \<open>fault_update\<close> are what \<open>findMany\<close> and \<open>updateMany\<close> throw,
  if they do; the \<open>catch\<close> turns either into a result.
\<close>

definition updateProjectionsWithOdds ::
  "engine \<Rightarrow> int \<Rightarrow> exn option \<Rightarrow> exn option \<Rightarrow> string \<Rightarrow> obj \<Rightarrow> table
     \<Rightarrow> odds_result \<times> table" where
  "updateProjectionsWithOdds E now fault_find fault_update gameId oddsData tbl =
     (case findMany fault_find [(''gameId'', Some (JStr gameId))] tbl of
        Inl e \<Rightarrow> (UpdateError e, tbl)
      | Inr projections \<Rightarrow>
          if length projections = 0
          then (NoProjections ''No projections found for this game ID'', tbl)
          else
            case updateMany fault_update now [(''gameId'', Some (JStr gameId))]
                   (odds_patch E now oddsData) tbl of
              Inl e \<Rightarrow> (UpdateError e, tbl)
            | Inr (n, tbl') \<Rightarrow> (Updated n, tbl'))"

text \<open>The command line: \<open>process.exit(result.success ? 0 : 1)\<close>.\<close>

definition odds_exit_code :: "odds_result \<Rightarrow> int" where
  "odds_exit_code result = (if success result then 0 else 1)"

section \<open>delete\_old\_projections.js\<close>

datatype delete_result = Deleted nat | DeleteError exn

text \<open>The filter \<open>startTime: { lt: currentTime }\<close>.\<close>

definition startTime_lt :: "int \<Rightarrow> row \<Rightarrow> bool" where
  "startTime_lt currentTime r =
     (case r ''startTime'' of Some (JDate (Some t)) \<Rightarrow> t < currentTime | _ \<Rightarrow> False)"

text \<open>\<open>currentTime\<close> is the one reading of the clock, \<open>new Date()\<close> in the first line.\<close>

definition deleteOldProjections ::
  "int \<Rightarrow> exn option \<Rightarrow> table \<Rightarrow> delete_result \<times> table" where
  "deleteOldProjections currentTime fault tbl =
     (case deleteMany fault (startTime_lt currentTime) tbl of
        Inl e \<Rightarrow> (DeleteError e, tbl)
      | Inr (n, tbl') \<Rightarrow> (Deleted n, tbl'))"

section \<open>Stored state and keys\<close>

text \<open>The natural keys, as the \<open>where\<close> arguments of the three upserts.\<close>

definition player_key :: "obj \<Rightarrow> (string \<times> jsval option) list" where
  "player_key player = [(''playerID'', player ''playerID'')]"

definition projection_key :: "obj \<Rightarrow> (string \<times> jsval option) list" where
  "projection_key projection = [(''projectionId'', projection ''projectionId'')]"

definition gameStat_key :: "jsval option \<Rightarrow> string \<times> obj \<Rightarrow> (string \<times> jsval option) list" where
  "gameStat_key playerId entry = [(''gameId'', Some (JStr (fst entry))), (''playerId'', playerId)]"

text \<open>The number of stored rows that have the key.\<close>

definition stored_with :: "(string \<times> jsval option) list \<Rightarrow> table \<Rightarrow> nat" where
  "stored_with wh tbl = length (filter (row_matches wh) tbl)"

text \<open>A row without the audit column that the client refreshes on every write, and
  a row with that column set.\<close>

definition without_updatedAt :: "row \<Rightarrow> row" where
  "without_updatedAt r = r(''updatedAt'' := None)"

definition stamp :: "int \<Rightarrow> row \<Rightarrow> row" where
  "stamp now r = r(''updatedAt'' \<mapsto> JDate (Some now))"

text \<open>
  Two conditions on the arguments of an upsert, which the three scripts meet: the key
  columns are not the audit columns and the update leaves them as the \<open>where\<close> has them;
  the row that is created carries the key and every value of the update.
\<close>

definition key_safe :: "(string \<times> jsval option) list \<Rightarrow> obj \<Rightarrow> bool" where
  "key_safe wh upd =
     list_all (\<lambda>(k, v). k \<noteq> ''updatedAt'' \<and> k \<noteq> ''createdAt'' \<and> (upd k = None \<or> upd k = v)) wh"

definition create_covers :: "(string \<times> jsval option) list \<Rightarrow> obj \<Rightarrow> obj \<Rightarrow> bool" where
  "create_covers wh upd cre \<longleftrightarrow>
     list_all (\<lambda>(k, v). cre k = v) wh \<and> cre ++ upd = cre \<and> upd ''createdAt'' = None"


text \<open>One call after another: the second runs on the table the first returned.\<close>

definition and_then :: "exn + table \<Rightarrow> (table \<Rightarrow> exn + table) \<Rightarrow> exn + table" where
  "and_then res f = (case res of Inl e \<Rightarrow> Inl e | Inr t \<Rightarrow> f t)"

text \<open>The values of one column, row by row.\<close>

definition column :: "string \<Rightarrow> exn + table \<Rightarrow> exn + jsval option list" where
  "column f res = (case res of Inl e \<Rightarrow> Inl e | Inr t \<Rightarrow> Inr (map (\<lambda>r. r f) t))"

section \<open>Records whose reconciliation throws\<close>

text \<open>
  When the callback of \<open>storeProjections\<close> ends in its \<open>catch\<close>: the debug block throws
  (only for the first three records), the store throws, or the \<open>where\<close> is rejected.
\<close>

definition projection_throws ::
  "engine \<Rightarrow> (nat \<Rightarrow> int) \<Rightarrow> (nat \<Rightarrow> exn option) \<Rightarrow> nat \<Rightarrow> obj \<Rightarrow> bool" where
  "projection_throws E clock faults i projection \<longleftrightarrow>
     (i < 3 \<and> \<not> is_string (projection ''startTime'')) \<or>
     (i < 3 \<and> fst (parseISODatePreservingTimezone E (clock i) (projection ''startTime'')) = None) \<or>
     faults i \<noteq> None \<or> \<not> valid_where (projection_key projection)"

definition gameStat_throws ::
  "(nat \<Rightarrow> exn option) \<Rightarrow> jsval option \<Rightarrow> nat \<Rightarrow> string \<times> obj \<Rightarrow> bool" where
  "gameStat_throws faults playerId i entry \<longleftrightarrow>
     faults i \<noteq> None \<or> \<not> valid_where (gameStat_key playerId entry)"

text \<open>What the reconciliation of a projection throws, if it does, and the table after
  its upsert when nothing is thrown.\<close>

definition projection_thrown ::
  "engine \<Rightarrow> (nat \<Rightarrow> int) \<Rightarrow> (nat \<Rightarrow> exn option) \<Rightarrow> nat \<Rightarrow> obj \<Rightarrow> exn option" where
  "projection_thrown E clock faults i projection =
     (if i < 3 \<and> \<not> is_string (projection ''startTime'') then Some TypeError
      else if i < 3 \<and>
              fst (parseISODatePreservingTimezone E (clock i) (projection ''startTime'')) = None
      then Some RangeError
      else
        case faults i of
          Some e \<Rightarrow> Some e
        | None \<Rightarrow>
            if valid_where (projection_key projection) then None
            else Some (PrismaError ''Invalid where argument''))"

definition projection_written :: "engine \<Rightarrow> (nat \<Rightarrow> int) \<Rightarrow> nat \<Rightarrow> obj \<Rightarrow> table \<Rightarrow> table" where
  "projection_written E clock i projection tbl =
     (case upsert_projection E None (clock i) projection tbl of
        Inl e \<Rightarrow> tbl
      | Inr tbl' \<Rightarrow> tbl')"

section \<open>The columns that the updates write\<close>




section \<open>The numeric columns of a game's statistics\<close>

text \<open>The columns that \<open>gameStatData\<close> fills with \<open>parseFloat\<close>, each with the property of
  the incoming record it is read from.\<close>

definition numeric_fields :: "(string \<times> string) list" where
  "numeric_fields =
     [(''points'', ''pts''), (''rebounds'', ''reb''), (''offensiveRebounds'', ''OffReb''),
      (''defensiveRebounds'', ''DefReb''), (''assists'', ''ast''), (''steals'', ''stl''),
      (''blocks'', ''blk''), (''turnovers'', ''TOV''), (''personalFouls'', ''PF''),
      (''technicalFouls'', ''tech''), (''fieldGoalsMade'', ''fgm''),
      (''fieldGoalsAttempted'', ''fga''), (''threePointersMade'', ''tptfgm''),
      (''threePointersAttempted'', ''tptfga''), (''freeThrowsMade'', ''ftm''),
      (''freeThrowsAttempted'', ''fta'')]"

text \<open>The columns that \<open>gameStatData\<close> copies from the incoming record as they are.\<close>

definition copied_fields :: "(string \<times> string) list" where
  "copied_fields =
     [(''playerName'', ''longName''), (''team'', ''team''), (''teamAbbreviation'', ''teamAbv''),
      (''teamId'', ''teamID''), (''opponent'', ''opponent''), (''isHome'', ''is_home''),
      (''plusMinus'', ''plusMinus''), (''minutesPlayed'', ''mins''),
      (''fieldGoalPercentage'', ''fgp''), (''threePointPercentage'', ''tptfgp''),
      (''freeThrowPercentage'', ''ftp''), (''fantasyPoints'', ''fantasyPoints'')]"

text \<open>The filter \<open>gameId: gameId\<close> of the odds update.\<close>

definition game_filter :: "string \<Rightarrow> (string \<times> jsval option) list" where
  "game_filter gameId = [(''gameId'', Some (JStr gameId))]"

section \<open>Example data\<close>

text \<open>An engine whose \<open>Date.parse\<close> and string-to-number conversion reject every string,
  for the examples whose result does not depend on them.\<close>

definition example_engine :: engine where
  "example_engine = \<lparr>date_parse = (\<lambda>s. None), string_to_number = (\<lambda>s. NaN)\<rparr>"

definition example_player :: obj where
  "example_player =
     obj_of [(''playerID'', Some (JStr ''p1'')), (''playerName'', Some (JStr ''A. Player'')),
             (''position'', Some (JStr ''G'')), (''team'', Some (JStr ''CHI'')),
             (''teamID'', Some (JStr ''5''))]"

text \<open>A projection whose start time is the empty string.\<close>

definition example_projection_no_start :: obj where
  "example_projection_no_start =
     obj_of [(''projectionId'', Some (JStr ''pr1'')), (''playerName'', Some (JStr ''A. Player'')),
             (''gameId'', Some (JStr ''g1'')), (''startTime'', Some (JStr []))]"

definition example_projection :: obj where
  "example_projection =
     obj_of [(''projectionId'', Some (JStr ''pr1'')), (''playerName'', Some (JStr ''A. Player'')),
             (''gameId'', Some (JStr ''g1'')),
             (''startTime'', Some (JStr ''2024-01-15T19:30:00-06:00''))]"

text \<open>A projection whose start time does not match the pattern.\<close>

definition example_projection_bad_date :: obj where
  "example_projection_bad_date =
     obj_of [(''projectionId'', Some (JStr ''pr9'')), (''playerName'', Some (JStr ''A. Player'')),
             (''gameId'', Some (JStr ''g1'')), (''startTime'', Some (JStr ''tomorrow''))]"

text \<open>Statistics of one game, with points that are not a number.\<close>

definition example_gameStat :: obj where
  "example_gameStat =
     obj_of [(''longName'', Some (JStr ''A. Player'')), (''pts'', Some (JStr ''abc'')),
             (''reb'', Some (JStr ''7''))]"

text \<open>A clock that advances with the index of the record, and a store that throws on
  the call for the record at index 1.\<close>

definition example_clock :: "nat \<Rightarrow> int" where
  "example_clock i = 100 + int i"

definition example_faults :: "nat \<Rightarrow> exn option" where
  "example_faults i = (if i = 1 then Some (PrismaError ''connection lost'') else None)"

text \<open>A store that never throws.\<close>

definition example_no_faults :: "nat \<Rightarrow> exn option" where
  "example_no_faults i = None"

text \<open>Three projections: the second meets the fault of the store, the start time of the
  third is a number.\<close>

definition example_batch :: "obj list" where
  "example_batch =
     [example_projection,
      obj_of [(''projectionId'', Some (JStr ''pr2'')),
              (''startTime'', Some (JStr ''2024-01-15T19:30:00-06:00''))],
      obj_of [(''projectionId'', Some (JStr ''pr3'')), (''startTime'', Some (JNum (Fin 5)))]]"

definition example_games :: "(string \<times> obj) list" where
  "example_games = [(''g1'', example_gameStat), (''g2'', example_gameStat)]"

text \<open>Odds with a home spread of zero, and a table of three projections, two of them of
  the game \<open>g1\<close>.\<close>

definition example_odds :: obj where
  "example_odds =
     obj_of [(''homeTeam'', Some (JStr ''CHI'')), (''awayTeam'', Some (JStr ''LAL'')),
             (''homeSpread'', Some (JStr ''0'')), (''awaySpread'', Some (JStr ''-3.5'')),
             (''totalOver'', Some (JStr ''n/a'')), (''lastUpdated'', Some (JNum (Fin 1700000000)))]"

definition example_table :: table where
  "example_table =
     [obj_of [(''projectionId'', Some (JStr ''pr1'')), (''gameId'', Some (JStr ''g1'')),
              (''startTime'', Some (JDate (Some 5))), (''homeSpread'', Some (JNum (Fin 2)))],
      obj_of [(''projectionId'', Some (JStr ''pr2'')), (''gameId'', Some (JStr ''g2'')),
              (''startTime'', Some (JDate (Some 10)))],
      obj_of [(''projectionId'', Some (JStr ''pr3'')), (''gameId'', Some (JStr ''g1'')),
              (''startTime'', Some (JDate (Some 15)))]]"

section \<open>Calendar arithmetic\<close>

subsection \<open>Years and days\<close>

lemma div_succ_int:
  fixes x k :: int
  assumes "0 < k"
  shows "(x + 1) div k = x div k + (if (x + 1) mod k = 0 then 1 else 0)"
proof -
  define q where "q = x div k"
  define r where "r = x mod k"
  have x: "x = k * q + r" by (simp add: q_def r_def)
  have b: "0 \<le> r" "r < k" using assms by (simp_all add: r_def)
  show ?thesis
  proof (cases "r = k - 1")
    case True
    have "x + 1 = k * (q + 1)" unfolding x True by (simp add: algebra_simps)
    then have "(x + 1) div k = q + 1" "(x + 1) mod k = 0" using assms by simp_all
    then show ?thesis by (simp add: q_def)
  next
    case False
    then have lt: "r + 1 < k" using b by linarith
    have e: "x + 1 = (r + 1) + k * q" unfolding x by simp
    have "(x + 1) div k = q" "(x + 1) mod k = r + 1"
      unfolding e using lt b assms by (simp_all add: div_pos_pos_trivial mod_pos_pos_trivial)
    then show ?thesis using b by (simp add: q_def)
  qed
qed

lemma mod4_shift: "(y - 1968) mod 4 = (y::int) mod 4"
  using mod_mult_self2 [of y 4 "- 492"] by simp

lemma mod100_shift: "(y - 1900) mod 100 = (y::int) mod 100"
  using mod_mult_self2 [of y 100 "- 19"] by simp

lemma mod400_shift: "(y - 1600) mod 400 = (y::int) mod 400"
  using mod_mult_self2 [of y 400 "- 4"] by simp

lemma mod100_mod4: "(y::int) mod 100 = 0 \<Longrightarrow> y mod 4 = 0"
  using mod_mod_cancel [of 4 100 y] by simp

lemma mod400_mod100: "(y::int) mod 400 = 0 \<Longrightarrow> y mod 100 = 0"
  using mod_mod_cancel [of 100 400 y] by simp

lemma DayFromYear_step: "DayFromYear (y + 1) = DayFromYear y + DaysInYear y"
proof -
  have a: "(y + 1 - 1969) div 4 = (y - 1969) div 4 + (if y mod 4 = 0 then 1 else 0)"
    using div_succ_int [of 4 "y - 1969"] by (simp add: mod4_shift)
  have b: "(y + 1 - 1901) div 100 = (y - 1901) div 100 + (if y mod 100 = 0 then 1 else 0)"
    using div_succ_int [of 100 "y - 1901"] by (simp add: mod100_shift)
  have c: "(y + 1 - 1601) div 400 = (y - 1601) div 400 + (if y mod 400 = 0 then 1 else 0)"
    using div_succ_int [of 400 "y - 1601"] by (simp add: mod400_shift)
  show ?thesis
    unfolding DayFromYear_def DaysInYear_def a b c
    using mod100_mod4 [of y] mod400_mod100 [of y] by auto
qed

lemma DaysInYear_leap: "DaysInYear y = 365 + InLeapYear y"
  by (simp add: DaysInYear_def InLeapYear_def)

lemma InLeapYear_cases: "InLeapYear y = 0 \<or> InLeapYear y = 1"
  by (simp add: InLeapYear_def)

lemma div_bounds:
  fixes x k :: int
  assumes "0 < k"
  shows "k * (x div k) \<le> x" and "x < k * (x div k) + k"
proof -
  have "x = k * (x div k) + x mod k" by simp
  moreover have "0 \<le> x mod k" "x mod k < k" using assms by simp_all
  ultimately show "k * (x div k) \<le> x" and "x < k * (x div k) + k" by linarith+
qed

lemma lower_aux:
  fixes a b c y :: int
  assumes "y - 1969 < 4 * a + 4" "100 * b \<le> y - 1901" "y - 1601 < 400 * c + 400"
  shows "146097 * (y - 1970) - 506 \<le> 400 * (365 * (y - 1970) + a - b + c)"
  using assms by (simp add: algebra_simps)

lemma upper_aux:
  fixes a b c y :: int
  assumes "4 * a \<le> y - 1969" "y - 1901 < 100 * b + 100" "400 * c \<le> y - 1601"
  shows "400 * (365 * (y - 1970) + a - b + c) \<le> 146097 * (y - 1970) + 589"
  using assms by (simp add: algebra_simps)

lemma DayFromYear_lower: "146097 * (y - 1970) - 506 \<le> 400 * DayFromYear y"
  unfolding DayFromYear_def
  by (rule lower_aux) (simp_all add: div_bounds)

lemma DayFromYear_upper: "400 * DayFromYear y \<le> 146097 * (y - 1970) + 589"
  unfolding DayFromYear_def
  by (rule upper_aux) (simp_all add: div_bounds)

lemma estimate_lower:
  fixes g d y D :: int
  assumes "400 * d < 146097 * g + 146097" "D \<le> d" "146097 * (y - 1970) - 506 \<le> 400 * D"
  shows "y - 1971 \<le> g"
proof (rule ccontr)
  assume "\<not> y - 1971 \<le> g"
  then have "g + 1 \<le> y - 1971" by simp
  then have "146097 * g + 146097 \<le> 146097 * y - 287957187" by simp
  moreover have "146097 * y - 287811596 \<le> 400 * D" using assms(3) by (simp add: algebra_simps)
  ultimately show False using assms(1,2) by simp
qed

lemma estimate_upper:
  fixes g d y D :: int
  assumes "146097 * g \<le> 400 * d" "d \<le> D + 365" "400 * D \<le> 146097 * (y - 1970) + 589"
  shows "g \<le> y - 1969"
proof (rule ccontr)
  assume "\<not> g \<le> y - 1969"
  then have "y - 1968 \<le> g" by simp
  then have "146097 * y - 287518896 \<le> 146097 * g" by simp
  moreover have "400 * D \<le> 146097 * y - 287810501" using assms(3) by (simp add: algebra_simps)
  ultimately show False using assms(1,2) by simp
qed

lemma YearFromDay_unique:
  assumes lo: "DayFromYear y \<le> d" and hi: "d < DayFromYear (y + 1)"
  shows "YearFromDay d = y"
proof -
  define g where "g = (400 * d) div 146097"
  have g: "146097 * g \<le> 400 * d" "400 * d < 146097 * g + 146097"
    unfolding g_def by (simp_all add: div_bounds)
  have hi': "d \<le> DayFromYear y + 365"
    using hi InLeapYear_cases [of y] by (auto simp: DayFromYear_step DaysInYear_leap)
  have g_lo: "y - 1971 \<le> g"
    using g(2) lo DayFromYear_lower [of y] by (rule estimate_lower)
  have g_hi: "g \<le> y - 1969"
    using g(1) hi' DayFromYear_upper [of y] by (rule estimate_upper)
  have prev: "DayFromYear (y - 1) < DayFromYear y"
    using DayFromYear_step [of "y - 1"] InLeapYear_cases [of "y - 1"]
    by (auto simp: DaysInYear_leap)
  consider "g = y - 1971" | "g = y - 1970" | "g = y - 1969"
    using g_lo g_hi by linarith
  then show ?thesis
  proof cases
    case 1
    then have e: "1970 + g = y - 1" by simp
    show ?thesis
      unfolding YearFromDay_def Let_def g_def [symmetric] e
      using prev lo hi by simp
  next
    case 2
    then have e: "1970 + g = y" by simp
    show ?thesis
      unfolding YearFromDay_def Let_def g_def [symmetric] e
      using lo hi by simp
  next
    case 3
    then have e: "1970 + g = y + 1" by simp
    show ?thesis
      unfolding YearFromDay_def Let_def g_def [symmetric] e
      using lo hi by simp
  qed
qed

subsection \<open>Months and days of the month\<close>

lemma month_chain:
  fixes m d L w :: int
  assumes L: "L = 0 \<or> L = 1"
    and m: "0 \<le> m" "m \<le> 11"
    and d: "1 \<le> d" "d \<le> (if m = 1 then 28 + L else if m = 3 \<or> m = 5 \<or> m = 8 \<or> m = 10 then 30 else 31)"
    and w: "w = month_start m L + d - 1"
  shows "(if w < 31 then 0 else if w < 59 + L then 1 else if w < 90 + L then 2
         else if w < 120 + L then 3 else if w < 151 + L then 4 else if w < 181 + L then 5
         else if w < 212 + L then 6 else if w < 243 + L then 7 else if w < 273 + L then 8
         else if w < 304 + L then 9 else if w < 334 + L then 10 else 11) = m"
    and "0 \<le> w" and "w < 365 + L"
proof -
  have "m = 0 \<or> m = 1 \<or> m = 2 \<or> m = 3 \<or> m = 4 \<or> m = 5 \<or> m = 6 \<or> m = 7
      \<or> m = 8 \<or> m = 9 \<or> m = 10 \<or> m = 11"
    using m by presburger
  then consider "m = 0" | "m = 1" | "m = 2" | "m = 3" | "m = 4" | "m = 5" | "m = 6" | "m = 7"
    | "m = 8" | "m = 9" | "m = 10" | "m = 11"
    by blast
  then have "(if w < 31 then 0 else if w < 59 + L then 1 else if w < 90 + L then 2
         else if w < 120 + L then 3 else if w < 151 + L then 4 else if w < 181 + L then 5
         else if w < 212 + L then 6 else if w < 243 + L then 7 else if w < 273 + L then 8
         else if w < 304 + L then 9 else if w < 334 + L then 10 else 11) = m
       \<and> 0 \<le> w \<and> w < 365 + L"
    using L d unfolding w by cases (auto simp: month_start_def)
  then show "(if w < 31 then 0 else if w < 59 + L then 1 else if w < 90 + L then 2
         else if w < 120 + L then 3 else if w < 151 + L then 4 else if w < 181 + L then 5
         else if w < 212 + L then 6 else if w < 243 + L then 7 else if w < 273 + L then 8
         else if w < 304 + L then 9 else if w < 334 + L then 10 else 11) = m"
    and "0 \<le> w" and "w < 365 + L" by simp_all
qed

lemma days_in_month_shift:
  "days_in_month y (m + 1) =
     (if m = 1 then 28 + InLeapYear y else if m = 3 \<or> m = 5 \<or> m = 8 \<or> m = 10 then 30 else 31)"
  by (simp add: days_in_month_def)

lemma MakeDay_fields:
  assumes m: "0 \<le> m" "m \<le> 11" and d: "1 \<le> d" "d \<le> days_in_month y (m + 1)"
  shows "YearFromDay (MakeDay y m d) = y"
    and "MonthFromDay (MakeDay y m d) = m"
    and "DateFromDay (MakeDay y m d) = d"
proof -
  define L where "L = InLeapYear y"
  define w where "w = month_start m L + d - 1"
  have md: "m div 12 = 0" "m mod 12 = m" using m by simp_all
  have D: "MakeDay y m d = DayFromYear y + w"
    by (simp add: MakeDay_def md w_def L_def)
  have Lc: "L = 0 \<or> L = 1" unfolding L_def by (rule InLeapYear_cases)
  have d': "d \<le> (if m = 1 then 28 + L else if m = 3 \<or> m = 5 \<or> m = 8 \<or> m = 10 then 30 else 31)"
    using d(2) by (simp only: days_in_month_shift L_def)
  note ch = month_chain [OF Lc m d(1) d' w_def]
  have "DayFromYear y \<le> DayFromYear y + w" using ch(2) by simp
  moreover have "DayFromYear y + w < DayFromYear (y + 1)"
    using ch(3) by (simp add: DayFromYear_step DaysInYear_leap L_def)
  ultimately have Y: "YearFromDay (DayFromYear y + w) = y" by (rule YearFromDay_unique)
  show "YearFromDay (MakeDay y m d) = y" by (simp only: D Y)
  have wd: "DayFromYear y + w - DayFromYear y = w" by simp
  have M: "MonthFromDay (DayFromYear y + w) = m"
    unfolding MonthFromDay_def Let_def Y wd L_def [symmetric] by (rule ch(1))
  show "MonthFromDay (MakeDay y m d) = m" by (simp only: D M)
  show "DateFromDay (MakeDay y m d) = d"
    unfolding D DateFromDay_def Let_def Y M wd L_def [symmetric] by (simp add: w_def)
qed

subsection \<open>The time within the day\<close>

lemma div_mod_decomp:
  fixes q r k :: int
  assumes "0 \<le> r" "r < k"
  shows "(r + k * q) div k = q" and "(r + k * q) mod k = r"
  using assms by (simp_all add: div_pos_pos_trivial mod_pos_pos_trivial)

lemma MakeDate_fields:
  assumes h: "0 \<le> h" "h \<le> 23" and mi: "0 \<le> mi" "mi \<le> 59" and s: "0 \<le> s" "s \<le> 59"
  shows "Day (MakeDate D (MakeTime h mi s 0)) = D"
    and "HourFromTime (MakeDate D (MakeTime h mi s 0)) = h"
    and "MinFromTime (MakeDate D (MakeTime h mi s 0)) = mi"
    and "SecFromTime (MakeDate D (MakeTime h mi s 0)) = s"
proof -
  define t where "t = MakeDate D (MakeTime h mi s 0)"
  have t1: "t = (h * 3600000 + mi * 60000 + s * 1000) + 86400000 * D"
    by (simp add: t_def MakeDate_def MakeTime_def msPerDay_def)
  have t2: "t = (mi * 60000 + s * 1000) + 3600000 * (h + 24 * D)"
    by (simp add: t1)
  have t3: "t = s * 1000 + 60000 * (mi + 60 * (h + 24 * D))"
    by (simp add: t1)
  have t4: "t = 0 + 1000 * (s + 60 * (mi + 60 * (h + 24 * D)))"
    by (simp add: t1)
  have "t div 86400000 = D"
    unfolding t1 using h mi s by (intro div_mod_decomp) linarith+
  then show "Day (MakeDate D (MakeTime h mi s 0)) = D"
    by (simp add: Day_def msPerDay_def t_def)
  have "t div 3600000 = h + 24 * D"
    unfolding t2 using mi s by (intro div_mod_decomp) linarith+
  then have "HourFromTime t = h"
    using h div_mod_decomp(2) [of h 24 D] by (simp add: HourFromTime_def)
  then show "HourFromTime (MakeDate D (MakeTime h mi s 0)) = h" by (simp add: t_def)
  have "t div 60000 = mi + 60 * (h + 24 * D)"
    unfolding t3 using s by (intro div_mod_decomp) linarith+
  then have "MinFromTime t = mi"
    using mi div_mod_decomp(2) [of mi 60 "h + 24 * D"] by (simp add: MinFromTime_def)
  then show "MinFromTime (MakeDate D (MakeTime h mi s 0)) = mi" by (simp add: t_def)
  have "t div 1000 = s + 60 * (mi + 60 * (h + 24 * D))"
    unfolding t4 by (intro div_mod_decomp) simp_all
  then have "SecFromTime t = s"
    using s div_mod_decomp(2) [of s 60 "mi + 60 * (h + 24 * D)"] by (simp add: SecFromTime_def)
  then show "SecFromTime (MakeDate D (MakeTime h mi s 0)) = s" by (simp add: t_def)
qed

lemma utc_fields_civil_as_utc:
  assumes "valid_civil c"
  shows "utc_fields (civil_as_utc c) = c"
proof -
  from assms have m: "0 \<le> c_month c - 1" "c_month c - 1 \<le> 11"
    and d: "1 \<le> c_day c" "c_day c \<le> days_in_month (c_year c) (c_month c - 1 + 1)"
    and h: "0 \<le> c_hour c" "c_hour c \<le> 23"
    and mi: "0 \<le> c_minute c" "c_minute c \<le> 59"
    and s: "0 \<le> c_second c" "c_second c \<le> 59"
    by (simp_all add: valid_civil_def)
  note T = MakeDate_fields [OF h mi s]
  note F = MakeDay_fields [OF m d]
  show ?thesis
    unfolding utc_fields_def civil_as_utc_def T F by simp
qed

text \<open>Reassembling the parts of a time value gives it back, so setting the minutes
  moves the time value by whole minutes.\<close>

lemma time_parts:
  "MakeDate (Day t) (MakeTime (HourFromTime t) mi (SecFromTime t) (msFromTime t))
     = t + (mi - MinFromTime t) * 60000"
proof -
  define a where "a = t div 1000"
  define b where "b = a div 60"
  define c where "c = b div 60"
  have e1: "t = 1000 * a + t mod 1000" by (simp add: a_def)
  have e2: "a = 60 * b + a mod 60" by (simp add: b_def)
  have e3: "b = 60 * c + b mod 60" by (simp add: c_def)
  have e4: "c = 24 * (c div 24) + c mod 24" by simp
  have d1: "t div 60000 = b" by (simp add: b_def a_def div_mult2_eq [symmetric])
  have d2: "t div 3600000 = c"
    by (simp add: c_def b_def a_def div_mult2_eq [symmetric])
  have d3: "t div 86400000 = c div 24"
    by (simp add: c_def b_def a_def div_mult2_eq [symmetric])
  have "t = (c div 24) * 86400000 + (c mod 24) * 3600000 + (b mod 60) * 60000
            + (a mod 60) * 1000 + t mod 1000"
    using e1 e2 e3 e4 by linarith
  then show ?thesis
    unfolding MakeDate_def MakeTime_def Day_def HourFromTime_def MinFromTime_def
      SecFromTime_def msFromTime_def msPerDay_def d1 d2 d3 a_def [symmetric]
    by (simp add: algebra_simps)
qed

lemma setUTCMinutes_shift:
  "setUTCMinutes (Some t) (map_option (\<lambda>m. m - k) (getUTCMinutes (Some t)))
     = TimeClip (t - k * 60000)"
  by (simp add: setUTCMinutes_def getUTCMinutes_def time_parts algebra_simps)

subsection \<open>Digit strings\<close>

lemma is_digit_val: "is_digit c \<Longrightarrow> 0 \<le> digit_val c \<and> digit_val c \<le> 9"
  by (auto simp: is_digit_def digit_val_def)

lemma parseInt10_snoc: "parseInt10 (s @ [c]) = 10 * parseInt10 s + digit_val c"
  by (simp add: parseInt10_def)

lemma parseInt10_bounds:
  "all_digits s \<Longrightarrow> 0 \<le> parseInt10 s \<and> parseInt10 s < 10 ^ length s"
proof (induction s rule: rev_induct)
  case Nil
  show ?case by (simp add: parseInt10_def)
next
  case (snoc c s)
  then have ih: "0 \<le> parseInt10 s" "parseInt10 s < 10 ^ length s"
    and c: "0 \<le> digit_val c" "digit_val c \<le> 9"
    using is_digit_val [of c] by (simp_all add: all_digits_def)
  from ih(2) have "parseInt10 s + 1 \<le> 10 ^ length s" by simp
  then have "10 * parseInt10 s + 10 \<le> 10 * 10 ^ length s" by simp
  then show ?case using ih(1) c by (simp add: parseInt10_snoc)
qed

lemma parseInt10_two:
  "all_digits s \<Longrightarrow> length s = 2 \<Longrightarrow> 0 \<le> parseInt10 s \<and> parseInt10 s \<le> 99"
  using parseInt10_bounds [of s] by simp

lemma parseInt10_four:
  "all_digits s \<Longrightarrow> length s = 4 \<Longrightarrow> 0 \<le> parseInt10 s \<and> parseInt10 s \<le> 9999"
  using parseInt10_bounds [of s] by simp

lemma iso_match_Some:
  assumes "iso_match s \<noteq> None"
  shows "iso_match s =
           Some (take 4 s, take 2 (drop 5 s), take 2 (drop 8 s), take 2 (drop 11 s),
                 take 2 (drop 14 s), take 2 (drop 17 s), drop 19 s)"
    and "length s = 25"
    and "all_digits (take 4 s)"
    and "all_digits (take 2 (drop 20 s))"
    and "all_digits (take 2 (drop 23 s))"
  using assms by (simp_all add: iso_match_def split: if_splits)

lemma tzOffsetMinutes_bounds:
  assumes "iso_match s \<noteq> None"
  shows "- 6039 \<le> iso_offset s \<and> iso_offset s \<le> 6039"
proof -
  note M = iso_match_Some [OF assms]
  have h: "0 \<le> parseInt10 (take 2 (drop 20 s)) \<and> parseInt10 (take 2 (drop 20 s)) \<le> 99"
    using M(2,4) by (intro parseInt10_two) simp_all
  have m: "0 \<le> parseInt10 (take 2 (drop 23 s)) \<and> parseInt10 (take 2 (drop 23 s)) \<le> 99"
    using M(2,5) by (intro parseInt10_two) simp_all
  show ?thesis
    using h m by (auto simp: iso_offset_def tzOffsetMinutes_def Let_def)
qed

lemma DayFromYear_range:
  assumes "0 \<le> y" "y \<le> 9999"
  shows "- 720000 \<le> DayFromYear y \<and> DayFromYear y \<le> 2940000"
proof -
  have "146097 * y - 287811596 \<le> 400 * DayFromYear y"
    using DayFromYear_lower [of y] by (simp add: algebra_simps)
  then have lo: "- 287811596 \<le> 400 * DayFromYear y" using assms(1) by simp
  have "400 * DayFromYear y \<le> 146097 * y - 287810501"
    using DayFromYear_upper [of y] by (simp add: algebra_simps)
  then have hi: "400 * DayFromYear y \<le> 1173013402" using assms(2) by simp
  show ?thesis using lo hi by simp
qed

lemma civil_as_utc_range:
  assumes v: "valid_civil c" and y: "0 \<le> c_year c" "c_year c \<le> 9999"
  shows "\<bar>civil_as_utc c\<bar> \<le> 300000000000000"
proof -
  define D where "D = MakeDay (c_year c) (c_month c - 1) (c_day c)"
  define T where "T = MakeTime (c_hour c) (c_minute c) (c_second c) 0"
  from v have m: "0 \<le> c_month c - 1" "c_month c - 1 \<le> 11"
    and d: "1 \<le> c_day c" "c_day c \<le> 31"
    and t: "0 \<le> c_hour c" "c_hour c \<le> 23" "0 \<le> c_minute c" "c_minute c \<le> 59"
      "0 \<le> c_second c" "c_second c \<le> 59"
    using InLeapYear_cases [of "c_year c"]
    by (auto simp: valid_civil_def days_in_month_def split: if_splits)
  have md: "(c_month c - 1) div 12 = 0" "(c_month c - 1) mod 12 = c_month c - 1"
    using m by simp_all
  have ms: "0 \<le> month_start (c_month c - 1) (InLeapYear (c_year c))"
    "month_start (c_month c - 1) (InLeapYear (c_year c)) \<le> 335"
    using InLeapYear_cases [of "c_year c"] by (auto simp: month_start_def)
  have Db: "- 720000 \<le> D" "D \<le> 2941000"
    using DayFromYear_range [OF y] ms d by (simp_all add: D_def MakeDay_def Let_def md)
  have Tb: "0 \<le> T" "T < 86400000"
    using t by (simp_all add: T_def MakeTime_def)
  have "civil_as_utc c = D * 86400000 + T"
    by (simp add: civil_as_utc_def MakeDate_def msPerDay_def D_def T_def)
  then show ?thesis using Db Tb by simp
qed


section \<open>The date normalizer on offset-qualified timestamps\<close>

text \<open>
  Claim C2, as the code has it. A string that matches the pattern, whose fields are a
  valid calendar date and time of day and whose year is at least 0100, is normalized to
  the instant obtained by reading the six fields as UTC and subtracting the offset in
  minutes; no warning is written; and the wall clock of that instant in the zone of the
  stated offset shows the fields of the string again.
\<close>

theorem parseISO_offset_timestamp:
  assumes match: "iso_match s \<noteq> None"
    and valid: "valid_civil (iso_civil s)"
    and year: "100 \<le> c_year (iso_civil s)"
  shows "parseISODatePreservingTimezone E now (Some (JStr s))
           = (Some (civil_as_utc (iso_civil s) - iso_offset s * 60000), [])
         \<and> wall_clock (iso_offset s) (civil_as_utc (iso_civil s) - iso_offset s * 60000)
           = iso_civil s"
proof -
  note M = iso_match_Some [OF match]
  define c where "c = iso_civil s"
  define off where "off = iso_offset s"
  have y4: "0 \<le> c_year c \<and> c_year c \<le> 9999"
    unfolding c_def iso_civil_def using M(2,3) by (simp add: parseInt10_four)
  have t_range: "\<bar>civil_as_utc c\<bar> \<le> 300000000000000"
    using valid y4 by (intro civil_as_utc_range) (simp_all add: c_def)
  have off_range: "- 6039 \<le> off \<and> off \<le> 6039"
    unfolding off_def by (rule tzOffsetMinutes_bounds [OF match])
  have utc: "Date_UTC (parseInt10 (take 4 s)) (parseInt10 (take 2 (drop 5 s)) - 1)
               (parseInt10 (take 2 (drop 8 s))) (parseInt10 (take 2 (drop 11 s)))
               (parseInt10 (take 2 (drop 14 s))) (parseInt10 (take 2 (drop 17 s)))
             = Some (civil_as_utc c)"
    using year t_range
    by (simp add: Date_UTC_def TimeClip_def civil_as_utc_def c_def iso_civil_def)
  have "- 362340000 \<le> off * 60000 \<and> off * 60000 \<le> 362340000"
    using off_range by simp
  then have "\<bar>civil_as_utc c - off * 60000\<bar> \<le> 8640000000000000"
    using t_range by linarith
  then have clip: "TimeClip (civil_as_utc c - off * 60000) = Some (civil_as_utc c - off * 60000)"
    by (simp add: TimeClip_def)
  have off_eq: "tzOffsetMinutes (drop 19 s) = off"
    by (simp add: off_def iso_offset_def)
  have nonempty: "truthy (Some (JStr s))"
    using M(2) by (auto simp: truthy_def)
  have parse: "parseISODatePreservingTimezone E now (Some (JStr s))
                 = (Some (civil_as_utc c - off * 60000), [])"
    unfolding parseISODatePreservingTimezone_def
    by (simp add: nonempty M(1) utc setUTCMinutes_shift off_eq clip)
  have rt: "wall_clock off (civil_as_utc c - off * 60000) = c"
    using valid by (simp add: wall_clock_def utc_fields_civil_as_utc c_def)
  show ?thesis using parse rt by (simp add: c_def off_def)
qed


text \<open>The example of the specification: 2024-01-15T19:30:00-06:00 is the instant
  2024-01-16T01:30:00Z, and its wall clock six hours behind UTC is 19:30:00 on
  2024-01-15.\<close>

theorem parseISO_offset_timestamp_witness:
  "iso_match ''2024-01-15T19:30:00-06:00'' \<noteq> None
   \<and> valid_civil (iso_civil ''2024-01-15T19:30:00-06:00'')
   \<and> 100 \<le> c_year (iso_civil ''2024-01-15T19:30:00-06:00'')
   \<and> parseISODatePreservingTimezone example_engine 0 (Some (JStr ''2024-01-15T19:30:00-06:00''))
       = (Some 1705368600000, [])
   \<and> civil_as_utc \<lparr>c_year = 2024, c_month = 1, c_day = 16, c_hour = 1, c_minute = 30,
        c_second = 0\<rparr> = 1705368600000
   \<and> wall_clock (- 360) 1705368600000
       = \<lparr>c_year = 2024, c_month = 1, c_day = 15, c_hour = 19, c_minute = 30, c_second = 0\<rparr>"
proof -
  have m: "iso_match ''2024-01-15T19:30:00-06:00'' \<noteq> None" by code_simp
  have v: "valid_civil (iso_civil ''2024-01-15T19:30:00-06:00'')" by code_simp
  have y: "100 \<le> c_year (iso_civil ''2024-01-15T19:30:00-06:00'')" by code_simp
  have c: "iso_civil ''2024-01-15T19:30:00-06:00''
             = \<lparr>c_year = 2024, c_month = 1, c_day = 15, c_hour = 19, c_minute = 30,
                c_second = 0\<rparr>"
    by code_simp
  have t: "civil_as_utc \<lparr>c_year = 2024, c_month = 1, c_day = 15, c_hour = 19, c_minute = 30,
                c_second = 0\<rparr> - - 360 * 60000 = 1705368600000"
    by code_simp
  have off: "iso_offset ''2024-01-15T19:30:00-06:00'' = - 360" by code_simp
  have z: "civil_as_utc \<lparr>c_year = 2024, c_month = 1, c_day = 16, c_hour = 1, c_minute = 30,
        c_second = 0\<rparr> = 1705368600000"
    by code_simp
  from parseISO_offset_timestamp [OF m v y, of example_engine 0]
  have "parseISODatePreservingTimezone example_engine 0 (Some (JStr ''2024-01-15T19:30:00-06:00''))
          = (Some 1705368600000, [])
        \<and> wall_clock (- 360) 1705368600000
          = \<lparr>c_year = 2024, c_month = 1, c_day = 15, c_hour = 19, c_minute = 30, c_second = 0\<rparr>"
    unfolding c off t .
  with m v y z show ?thesis by blast
qed

text \<open>
  The claim as stated, for every string of the form, fails. The year 0050 is taken by
  \<open>Date.UTC\<close> for 1950, so the instant is not the one the fields spell and the wall clock
  shows another year. The pattern also admits fields that are no calendar date: for
  February 30 the wall clock shows March 1.
\<close>

theorem parseISO_offset_timestamp_counterexample:
  "fst (parseISODatePreservingTimezone example_engine 0 (Some (JStr ''0050-01-01T00:00:00+00:00'')))
     = Some (- 631152000000)
   \<and> civil_as_utc (iso_civil ''0050-01-01T00:00:00+00:00'')
       - iso_offset ''0050-01-01T00:00:00+00:00'' * 60000 = - 60589296000000
   \<and> c_year (iso_civil ''0050-01-01T00:00:00+00:00'') = 50
   \<and> c_year (wall_clock (iso_offset ''0050-01-01T00:00:00+00:00'') (- 631152000000)) = 1950
   \<and> iso_match ''2024-02-30T12:00:00+00:00'' \<noteq> None
   \<and> fst (parseISODatePreservingTimezone example_engine 0 (Some (JStr ''2024-02-30T12:00:00+00:00'')))
       = Some 1709294400000
   \<and> wall_clock (iso_offset ''2024-02-30T12:00:00+00:00'') 1709294400000
       = \<lparr>c_year = 2024, c_month = 3, c_day = 1, c_hour = 12, c_minute = 0, c_second = 0\<rparr>
   \<and> iso_civil ''2024-02-30T12:00:00+00:00''
       = \<lparr>c_year = 2024, c_month = 2, c_day = 30, c_hour = 12, c_minute = 0, c_second = 0\<rparr>"
  by code_simp

section \<open>Tables, rows and keys\<close>

lemma update_first_length [simp]: "length (update_first P f tbl) = length tbl"
  by (induction tbl) auto

lemma update_first_none: "\<not> list_ex P tbl \<Longrightarrow> update_first P f tbl = tbl"
  by (induction tbl) auto

lemma update_first_count:
  assumes "\<And>r. P r \<Longrightarrow> Q (f r) = Q r"
  shows "length (filter Q (update_first P f tbl)) = length (filter Q tbl)"
  using assms by (induction tbl) auto

lemma update_first_twice:
  assumes "\<And>r. P r \<Longrightarrow> P (f r)"
  shows "update_first P g (update_first P f tbl) = update_first P (g \<circ> f) tbl"
  using assms by (induction tbl) auto

lemma update_first_cong:
  assumes "\<And>r. P r \<Longrightarrow> f r = g r"
  shows "update_first P f tbl = update_first P g tbl"
  using assms by (induction tbl) auto


lemma map_without_update_first:
  assumes "\<And>r. P r \<Longrightarrow> without_updatedAt (f r) = without_updatedAt r"
  shows "map without_updatedAt (update_first P f tbl) = map without_updatedAt tbl"
  using assms by (induction tbl) auto

lemma row_matches_touch:
  assumes "key_safe wh upd" "row_matches wh r"
  shows "row_matches wh (touch now upd r)"
  using assms unfolding key_safe_def row_matches_def touch_def
  by (induction wh) (auto simp: map_add_def split: option.splits)

lemma row_matches_stamp: 
  assumes "key_safe wh upd" 
  shows "row_matches wh (stamp now r) = row_matches wh r"
  using assms unfolding key_safe_def row_matches_def stamp_def
  by (induction wh) auto

lemma row_matches_fresh:
  assumes "key_safe wh upd" "create_covers wh upd cre" "valid_where wh"
  shows "row_matches wh (fresh_row now cre)"
  using assms unfolding key_safe_def row_matches_def create_covers_def fresh_row_def valid_where_def
  by (induction wh) (auto split: option.splits jsval.splits)

lemma touch_touch: "touch n2 upd (touch n1 upd r) = stamp n2 (touch n1 upd r)"
  by (rule ext) (simp add: touch_def stamp_def map_add_def split: option.splits)

lemma touch_fresh:
  assumes "cre ++ upd = cre" "upd ''createdAt'' = None"
  shows "touch n2 upd (fresh_row n1 cre) = stamp n2 (fresh_row n1 cre)"
proof (rule ext)
  fix k
  have "(cre ++ upd) k = cre k" using assms(1) by simp
  then show "touch n2 upd (fresh_row n1 cre) k = stamp n2 (fresh_row n1 cre) k"
    using assms(2) by (auto simp: touch_def stamp_def fresh_row_def map_add_def split: option.splits)
qed

lemma without_stamp: "without_updatedAt (stamp now r) = without_updatedAt r"
  by (simp add: without_updatedAt_def stamp_def)


lemma update_first_append:
  "\<not> list_ex P tbl \<Longrightarrow> P x \<Longrightarrow> update_first P f (tbl @ [x]) = tbl @ [f x]"
  by (induction tbl) auto

lemma list_ex_update_first:
  assumes "\<And>r. P r \<Longrightarrow> P (f r)"
  shows "list_ex P (update_first P f tbl) = list_ex P tbl"
  using assms by (induction tbl) auto

lemma filter_empty_list_ex: "\<not> list_ex P tbl \<Longrightarrow> filter P tbl = []"
  by (induction tbl) auto

lemma list_ex_filter_length: "list_ex P tbl \<Longrightarrow> 1 \<le> length (filter P tbl)"
  by (induction tbl) auto

lemma upsert_Inr:
  assumes "upsert None now wh upd cre tbl = Inr t"
  shows "valid_where wh"
    and "list_ex (row_matches wh) tbl \<Longrightarrow> t = update_first (row_matches wh) (touch now upd) tbl"
    and "\<not> list_ex (row_matches wh) tbl \<Longrightarrow> t = tbl @ [fresh_row now cre]"
  using assms by (auto simp: upsert_def split: if_splits)

lemma upsert_twice:
  assumes ks: "key_safe wh upd" and cc: "create_covers wh upd cre"
    and one: "upsert None n1 wh upd cre tbl = Inr t1"
  shows "upsert None n2 wh upd cre t1 = Inr (update_first (row_matches wh) (stamp n2) t1)"
    and "list_ex (row_matches wh) t1"
proof -
  note U = upsert_Inr [OF one]
  have keep: "\<And>r. row_matches wh r \<Longrightarrow> row_matches wh (touch n1 upd r)"
    by (rule row_matches_touch [OF ks])
  have fresh: "row_matches wh (fresh_row n1 cre)"
    by (rule row_matches_fresh [OF ks cc U(1)])
  have both: "list_ex (row_matches wh) t1
      \<and> update_first (row_matches wh) (touch n2 upd) t1
          = update_first (row_matches wh) (stamp n2) t1"
  proof (cases "list_ex (row_matches wh) tbl")
    case True
    have t1: "t1 = update_first (row_matches wh) (touch n1 upd) tbl" by (rule U(2) [OF True])
    have "update_first (row_matches wh) (touch n2 upd) t1
            = update_first (row_matches wh) (touch n2 upd \<circ> touch n1 upd) tbl"
      unfolding t1 by (rule update_first_twice) (rule keep)
    also have "\<dots> = update_first (row_matches wh) (stamp n2 \<circ> touch n1 upd) tbl"
      by (rule update_first_cong) (simp add: touch_touch)
    also have "\<dots> = update_first (row_matches wh) (stamp n2) t1"
      unfolding t1 by (rule update_first_twice [symmetric]) (rule keep)
    finally have eq: "update_first (row_matches wh) (touch n2 upd) t1
            = update_first (row_matches wh) (stamp n2) t1" .
    have "list_ex (row_matches wh) t1 = list_ex (row_matches wh) tbl"
      unfolding t1 by (rule list_ex_update_first) (rule keep)
    with eq True show ?thesis by simp
  next
    case False
    have t1: "t1 = tbl @ [fresh_row n1 cre]" by (rule U(3) [OF False])
    have c: "cre ++ upd = cre" "upd ''createdAt'' = None"
      using cc by (simp_all add: create_covers_def)
    show ?thesis
      unfolding t1 using False fresh
      by (simp add: update_first_append touch_fresh [OF c])
  qed
  then show "list_ex (row_matches wh) t1" by simp
  with both U(1) show "upsert None n2 wh upd cre t1 = Inr (update_first (row_matches wh) (stamp n2) t1)"
    by (simp add: upsert_def)
qed

lemma upsert_stored_once:
  assumes ks: "key_safe wh upd" and cc: "create_covers wh upd cre"
    and one: "upsert None n1 wh upd cre tbl = Inr t1"
    and uniq: "stored_with wh tbl \<le> 1"
  shows "stored_with wh t1 = 1"
proof (cases "list_ex (row_matches wh) tbl")
  case True
  note U = upsert_Inr [OF one]
  have "stored_with wh t1 = stored_with wh tbl"
    unfolding U(2) [OF True] stored_with_def
    by (rule update_first_count) (simp add: row_matches_touch [OF ks])
  then show ?thesis
    using uniq list_ex_filter_length [OF True] by (simp add: stored_with_def)
next
  case False
  note U = upsert_Inr [OF one]
  show ?thesis
    unfolding U(3) [OF False] stored_with_def
    using row_matches_fresh [OF ks cc U(1)] by (simp add: filter_empty_list_ex [OF False])
qed

lemma stamp_stored_with:
  assumes ks: "key_safe wh upd"
  shows "stored_with wh (update_first (row_matches wh) (stamp now) tbl) = stored_with wh tbl"
  unfolding stored_with_def
  by (rule update_first_count) (simp add: row_matches_stamp [OF ks])

lemma stamp_without:
  "map without_updatedAt (update_first P (stamp now) tbl) = map without_updatedAt tbl"
  by (rule map_without_update_first) (simp add: without_stamp)

text \<open>The second of two equal upserts only refreshes \<open>updatedAt\<close> in the one row of the key.\<close>

lemma upsert_idempotent:
  assumes ks: "key_safe wh upd" and cc: "create_covers wh upd cre"
    and one: "upsert None n1 wh upd cre tbl = Inr t1"
    and uniq: "stored_with wh tbl \<le> 1"
  shows "\<exists>t2. upsert None n2 wh upd cre t1 = Inr t2
           \<and> t2 = update_first (row_matches wh) (stamp n2) t1
           \<and> map without_updatedAt t2 = map without_updatedAt t1
           \<and> stored_with wh t1 = 1 \<and> stored_with wh t2 = 1"
  using upsert_twice(1) [OF ks cc one] upsert_stored_once [OF ks cc one uniq]
  by (simp add: stamp_without stamp_stored_with [OF ks])

subsection \<open>The three upserts\<close>

lemma player_key_safe: "key_safe [(''playerID'', player ''playerID'')] (player_update player)"
  by (simp add: key_safe_def player_update_def obj_of_def)

lemma obj_of_cons_add:
  "map_of kvs k = None \<Longrightarrow> obj_of ((k, v) # kvs) ++ obj_of kvs = obj_of ((k, v) # kvs)"
  by (rule ext) (simp add: obj_of_def map_add_def split: option.splits)

lemma player_create_covers:
  "create_covers [(''playerID'', player ''playerID'')] (player_update player) (player_create player)"
proof -
  have "player_create player ++ player_update player = player_create player"
    unfolding player_create_def player_update_def by (rule obj_of_cons_add) simp
  moreover have "player_create player ''playerID'' = player ''playerID''"
    by (simp add: player_create_def obj_of_def split: option.splits)
  moreover have "player_update player ''createdAt'' = None"
    by (simp add: player_update_def obj_of_def)
  ultimately show ?thesis by (simp add: create_covers_def)
qed

lemma projection_key_safe:
  "key_safe [(''projectionId'', projection ''projectionId'')] (projection_update projection t)"
  by (simp add: key_safe_def projection_update_def obj_of_def)

lemma projection_create_covers:
  "create_covers [(''projectionId'', projection ''projectionId'')]
     (projection_update projection t) (projection_create projection t)"
proof -
  have "projection_create projection t ++ projection_update projection t
          = projection_create projection t"
    unfolding projection_create_def projection_update_def by (rule obj_of_cons_add) simp
  moreover have "projection_create projection t ''projectionId'' = projection ''projectionId''"
    by (simp add: projection_create_def obj_of_def split: option.splits)
  moreover have "projection_update projection t ''createdAt'' = None"
    by (simp add: projection_update_def obj_of_def)
  ultimately show ?thesis by (simp add: create_covers_def)
qed

lemma fun_upd_add_self: "m k = None \<Longrightarrow> (m(k := x)) ++ m = m(k := x)"
  by (rule ext) (simp add: map_add_def split: option.splits)

lemma gameStatData_key_columns:
  "gameStatData E gameId playerId gameStat ''gameId'' = Some (JStr gameId)"
  "gameStatData E gameId playerId gameStat ''playerId'' = playerId"
  "gameStatData E gameId playerId gameStat ''id'' = None"
  "gameStatData E gameId playerId gameStat ''createdAt'' = None"
  by (simp_all add: gameStatData_def obj_of_def split: option.splits)

lemma gameStat_key_safe:
  "key_safe [(''gameId'', Some (JStr gameId)), (''playerId'', playerId)]
     (gameStatData E gameId playerId gameStat)"
  by (simp add: key_safe_def gameStatData_key_columns)

lemma gameStat_create_covers:
  "create_covers [(''gameId'', Some (JStr gameId)), (''playerId'', playerId)]
     (gameStatData E gameId playerId gameStat)
     ((gameStatData E gameId playerId gameStat)(''id'' := derived_id gameId playerId))"
  by (simp add: create_covers_def gameStatData_key_columns fun_upd_add_self)

lemma parseISO_clock_free:
  "truthy v \<Longrightarrow>
     parseISODatePreservingTimezone E n2 v = parseISODatePreservingTimezone E n1 v"
  by (simp add: parseISODatePreservingTimezone_def)

lemma upsert_player_idempotent:
  assumes "upsert_player None n1 player tbl = Inr t1"
    and "stored_with (player_key player) tbl \<le> 1"
  shows "\<exists>t2. upsert_player None n2 player t1 = Inr t2
           \<and> t2 = update_first (row_matches (player_key player)) (stamp n2) t1
           \<and> map without_updatedAt t2 = map without_updatedAt t1
           \<and> stored_with (player_key player) t1 = 1
           \<and> stored_with (player_key player) t2 = 1"
  using assms unfolding upsert_player_def player_key_def
  by (rule upsert_idempotent [OF player_key_safe player_create_covers])

lemma upsert_projection_idempotent:
  assumes "upsert_projection E None n1 projection tbl = Inr t1"
    and "stored_with (projection_key projection) tbl \<le> 1"
    and "truthy (projection ''startTime'')"
  shows "\<exists>t2. upsert_projection E None n2 projection t1 = Inr t2
           \<and> t2 = update_first (row_matches (projection_key projection)) (stamp n2) t1
           \<and> map without_updatedAt t2 = map without_updatedAt t1
           \<and> stored_with (projection_key projection) t1 = 1
           \<and> stored_with (projection_key projection) t2 = 1"
  using assms(1,2) unfolding upsert_projection_def projection_key_def Let_def
    parseISO_clock_free [OF assms(3), of E n2 n1]
  by (rule upsert_idempotent [OF projection_key_safe projection_create_covers])

lemma upsert_gameStat_idempotent:
  assumes "upsert_gameStat E None n1 playerId entry tbl = Inr t1"
    and "stored_with (gameStat_key playerId entry) tbl \<le> 1"
  shows "\<exists>t2. upsert_gameStat E None n2 playerId entry t1 = Inr t2
           \<and> t2 = update_first (row_matches (gameStat_key playerId entry)) (stamp n2) t1
           \<and> map without_updatedAt t2 = map without_updatedAt t1
           \<and> stored_with (gameStat_key playerId entry) t1 = 1
           \<and> stored_with (gameStat_key playerId entry) t2 = 1"
  using assms unfolding upsert_gameStat_def gameStat_key_def Let_def
  by (rule upsert_idempotent [OF gameStat_key_safe gameStat_create_covers])

section \<open>Upserting the same record twice\<close>

text \<open>
  Claim C1, as the code has it. Take a table that holds at most one row with the key
  of the record, and an upsert of the record that succeeds (of a player, of a projection
  whose start time is present, of the statistics of a game). The same upsert on the
  table that results succeeds again; all it does is refresh \<open>updatedAt\<close> in the row of
  the key, so the two tables are equal apart from that column; and after each of the two
  calls exactly one row has the key.
\<close>

theorem upsert_twice_same_state:
  assumes "upsert_player None n1 player ptbl = Inr pt1"
    and "stored_with (player_key player) ptbl \<le> 1"
    and "upsert_projection E None n1 projection jtbl = Inr jt1"
    and "stored_with (projection_key projection) jtbl \<le> 1"
    and "truthy (projection ''startTime'')"
    and "upsert_gameStat E None n1 playerId entry gtbl = Inr gt1"
    and "stored_with (gameStat_key playerId entry) gtbl \<le> 1"
  shows "(\<exists>t2. upsert_player None n2 player pt1 = Inr t2
            \<and> t2 = update_first (row_matches (player_key player)) (stamp n2) pt1
            \<and> map without_updatedAt t2 = map without_updatedAt pt1
            \<and> stored_with (player_key player) pt1 = 1
            \<and> stored_with (player_key player) t2 = 1)
       \<and> (\<exists>t2. upsert_projection E None n2 projection jt1 = Inr t2
            \<and> t2 = update_first (row_matches (projection_key projection)) (stamp n2) jt1
            \<and> map without_updatedAt t2 = map without_updatedAt jt1
            \<and> stored_with (projection_key projection) jt1 = 1
            \<and> stored_with (projection_key projection) t2 = 1)
       \<and> (\<exists>t2. upsert_gameStat E None n2 playerId entry gt1 = Inr t2
            \<and> t2 = update_first (row_matches (gameStat_key playerId entry)) (stamp n2) gt1
            \<and> map without_updatedAt t2 = map without_updatedAt gt1
            \<and> stored_with (gameStat_key playerId entry) gt1 = 1
            \<and> stored_with (gameStat_key playerId entry) t2 = 1)"
  using upsert_player_idempotent [OF assms(1,2), of n2]
    upsert_projection_idempotent [OF assms(3,4,5), of n2]
    upsert_gameStat_idempotent [OF assms(6,7), of n2]
  by blast

text \<open>A player, a projection and the statistics of a game, each upserted into an empty table
  at clock reading 1 and again at clock reading 2.\<close>

theorem upsert_twice_same_state_witness:
  "upsert_player None 1 example_player [] = Inr [fresh_row 1 (player_create example_player)]
   \<and> stored_with (player_key example_player) [] \<le> 1
   \<and> upsert_projection example_engine None 1 example_projection []
       = Inr [fresh_row 1 (projection_create example_projection
                (fst (parseISODatePreservingTimezone example_engine 1
                        (example_projection ''startTime''))))]
   \<and> stored_with (projection_key example_projection) [] \<le> 1
   \<and> truthy (example_projection ''startTime'')
   \<and> upsert_gameStat example_engine None 1 (Some (JStr ''p1'')) (''g1'', example_gameStat) []
       = Inr [fresh_row 1 ((gameStatData example_engine ''g1'' (Some (JStr ''p1'')) example_gameStat)
                (''id'' := derived_id ''g1'' (Some (JStr ''p1''))))]
   \<and> stored_with (gameStat_key (Some (JStr ''p1'')) (''g1'', example_gameStat)) [] \<le> 1
   \<and> (\<exists>t2. upsert_player None 2 example_player [fresh_row 1 (player_create example_player)] = Inr t2
        \<and> map without_updatedAt t2
            = map without_updatedAt [fresh_row 1 (player_create example_player)]
        \<and> stored_with (player_key example_player) t2 = 1)
   \<and> (\<exists>t2. upsert_projection example_engine None 2 example_projection
              [fresh_row 1 (projection_create example_projection
                (fst (parseISODatePreservingTimezone example_engine 1
                        (example_projection ''startTime''))))] = Inr t2
        \<and> stored_with (projection_key example_projection) t2 = 1)
   \<and> (\<exists>t2. upsert_gameStat example_engine None 2 (Some (JStr ''p1'')) (''g1'', example_gameStat)
              [fresh_row 1 ((gameStatData example_engine ''g1'' (Some (JStr ''p1'')) example_gameStat)
                (''id'' := derived_id ''g1'' (Some (JStr ''p1''))))] = Inr t2
        \<and> stored_with (gameStat_key (Some (JStr ''p1'')) (''g1'', example_gameStat)) t2 = 1)"
proof -
  have p1: "upsert_player None 1 example_player [] = Inr [fresh_row 1 (player_create example_player)]"
    by (simp add: upsert_player_def upsert_def valid_where_def example_player_def obj_of_def)
  have p2: "stored_with (player_key example_player) [] \<le> 1"
    by (simp add: stored_with_def)
  have j1: "upsert_projection example_engine None 1 example_projection []
       = Inr [fresh_row 1 (projection_create example_projection
                (fst (parseISODatePreservingTimezone example_engine 1
                        (example_projection ''startTime''))))]"
    by (simp add: upsert_projection_def upsert_def valid_where_def example_projection_def obj_of_def)
  have j2: "stored_with (projection_key example_projection) [] \<le> 1"
    by (simp add: stored_with_def)
  have j3: "truthy (example_projection ''startTime'')"
    by (simp add: truthy_def example_projection_def obj_of_def)
  have g1: "upsert_gameStat example_engine None 1 (Some (JStr ''p1'')) (''g1'', example_gameStat) []
       = Inr [fresh_row 1 ((gameStatData example_engine ''g1'' (Some (JStr ''p1'')) example_gameStat)
                (''id'' := derived_id ''g1'' (Some (JStr ''p1''))))]"
    by (simp add: upsert_gameStat_def upsert_def valid_where_def Let_def)
  have g2: "stored_with (gameStat_key (Some (JStr ''p1'')) (''g1'', example_gameStat)) [] \<le> 1"
    by (simp add: stored_with_def)
  from upsert_twice_same_state [OF p1 p2 j1 j2 j3 g1 g2, of 2]
  show ?thesis using p1 p2 j1 j2 j3 g1 g2 by blast
qed

text \<open>
  The stored state after two calls is not the state after one. The client sets
  \<open>updatedAt\<close> on every write, so the column holds the reading of the clock of the last
  call. A projection whose start time is empty is stored with the reading of the clock
  as its start time, so the second call stores another start time.
\<close>

theorem upsert_twice_same_state_counterexample:
  "column ''updatedAt'' (upsert_player None 1 example_player []) = Inr [Some (JDate (Some 1))]
   \<and> column ''updatedAt''
        (and_then (upsert_player None 1 example_player []) (upsert_player None 2 example_player))
       = Inr [Some (JDate (Some 2))]
   \<and> column ''startTime'' (upsert_projection example_engine None 1 example_projection_no_start [])
       = Inr [Some (JDate (Some 1))]
   \<and> column ''startTime''
        (and_then (upsert_projection example_engine None 1 example_projection_no_start [])
           (upsert_projection example_engine None 2 example_projection_no_start))
       = Inr [Some (JDate (Some 2))]"
  by code_simp

section \<open>What an upsert of a stored record changes\<close>

lemma touch_other_column:
  "f \<noteq> ''updatedAt'' \<Longrightarrow>
     touch now upd r f = (case upd f of None \<Rightarrow> r f | Some v \<Rightarrow> Some v)"
  by (simp add: touch_def map_add_def)

lemma touch_key_column:
  assumes "key_safe wh upd" "row_matches wh r" "(k, v) \<in> set wh"
  shows "touch now upd r k = r k"
proof -
  from assms(1,3) have k: "k \<noteq> ''updatedAt''" and u: "upd k = None \<or> upd k = v"
    unfolding key_safe_def list_all_iff by auto
  from assms(2,3) have r: "r k = v"
    unfolding row_matches_def list_all_iff by auto
  show ?thesis
    using u r by (cases "upd k") (auto simp: touch_other_column [OF k])
qed



text \<open>The columns of the data of a game's statistics.\<close>

lemma gameStatData_numeric:
  "list_all (\<lambda>(col, src). gameStatData E gameId playerId gameStat col
                = Some (JNum (parseFloat (gameStat src)))) numeric_fields"
  by (simp add: numeric_fields_def gameStatData_def obj_of_def)

lemma gameStatData_copied:
  "list_all (\<lambda>(col, src). gameStatData E gameId playerId gameStat col = gameStat src)
     copied_fields"
  by (simp add: copied_fields_def gameStatData_def obj_of_def split: option.splits)

lemma gameStatData_gameDate:
  "gameStatData E gameId playerId gameStat ''gameDate''
     = Some (JDate (new_Date E (gameStat ''game_date'')))"
  by (simp add: gameStatData_def obj_of_def)











section \<open>Batches with failing records\<close>

lemma run_batch_length: "length (fst (run_batch step i rs tbl)) = length rs"
  by (induction rs arbitrary: i tbl) (auto simp: split_beta Let_def)

lemma run_batch_names:
  assumes "\<And>i r tbl. outcome_name (fst (step i r tbl)) = nm r"
  shows "map outcome_name (fst (run_batch step i rs tbl)) = map nm rs"
  using assms by (induction rs arbitrary: i tbl) (auto simp: split_beta Let_def)

lemma run_batch_successes:
  assumes "\<And>i r tbl. is_success (fst (step i r tbl)) = (\<not> thr i r)"
  shows "map is_success (fst (run_batch step i rs tbl))
           = map (\<lambda>(j, r). \<not> thr j r) (List.enumerate i rs)"
  using assms by (induction rs arbitrary: i tbl) (auto simp: split_beta Let_def)

lemma run_batch_keeps:
  assumes "\<And>i r tbl. Q tbl \<Longrightarrow> Q (snd (step i r tbl))"
  shows "Q tbl \<Longrightarrow> Q (snd (run_batch step i rs tbl))"
  using assms by (induction rs arbitrary: i tbl) (auto simp: split_beta Let_def)

lemma run_batch_stored:
  assumes new: "\<And>i r tbl. \<not> thr i r \<Longrightarrow> list_ex (P r) (snd (step i r tbl))"
    and keep: "\<And>i r r' tbl. list_ex (P r') tbl \<Longrightarrow> list_ex (P r') (snd (step i r tbl))"
  shows "list_all (\<lambda>(j, r). thr j r \<or> list_ex (P r) (snd (run_batch step i rs tbl)))
           (List.enumerate i rs)"
proof (induction rs arbitrary: i tbl)
  case Nil
  show ?case by simp
next
  case (Cons r rs)
  define tbl' where "tbl' = snd (step i r tbl)"
  have final: "snd (run_batch step i (r # rs) tbl) = snd (run_batch step (Suc i) rs tbl')"
    by (simp add: split_beta Let_def tbl'_def)
  have hd: "thr i r \<or> list_ex (P r) (snd (run_batch step (Suc i) rs tbl'))"
  proof (cases "thr i r")
    case True
    then show ?thesis by simp
  next
    case False
    then have "list_ex (P r) tbl'" unfolding tbl'_def by (rule new)
    then have "list_ex (P r) (snd (run_batch step (Suc i) rs tbl'))"
      by (rule run_batch_keeps [where Q = "list_ex (P r)", rotated]) (rule keep)
    then show ?thesis by simp
  qed
  show ?case
    unfolding final using hd Cons.IH [of "Suc i" tbl'] by simp
qed

lemma count_successes:
  assumes "map is_success results = map (\<lambda>(j, r). \<not> thr j r) (List.enumerate i rs)"
  shows "successCount results = length rs - length (filter (\<lambda>(j, r). thr j r) (List.enumerate i rs))"
    and "length (errors results) = length (filter (\<lambda>(j, r). thr j r) (List.enumerate i rs))"
proof -
  have s: "successCount results = length (filter id (map is_success results))"
    by (simp add: successCount_def filter_map comp_def)
  have e: "length (errors results) = length (filter Not (map is_success results))"
    by (simp add: errors_def filter_map comp_def)
  have e': "length (filter Not (map (\<lambda>(j, r). \<not> thr j r) (List.enumerate i rs)))
              = length (filter (\<lambda>(j, r). thr j r) (List.enumerate i rs))"
    by (simp add: filter_map comp_def case_prod_unfold)
  have s': "length (filter id (map (\<lambda>(j, r). \<not> thr j r) (List.enumerate i rs)))
              = length (filter (\<lambda>x. \<not> (case x of (j, r) \<Rightarrow> thr j r)) (List.enumerate i rs))"
    by (simp add: filter_map comp_def case_prod_unfold)
  have "length (filter (\<lambda>(j, r). thr j r) (List.enumerate i rs))
          + length (filter (\<lambda>x. \<not> (case x of (j, r) \<Rightarrow> thr j r)) (List.enumerate i rs))
        = length rs"
    using sum_length_filter_compl [of "\<lambda>(j, r). thr j r" "List.enumerate i rs"] by simp
  then show "successCount results
      = length rs - length (filter (\<lambda>(j, r). thr j r) (List.enumerate i rs))"
    unfolding s assms s' by simp
  show "length (errors results) = length (filter (\<lambda>(j, r). thr j r) (List.enumerate i rs))"
    unfolding e assms e' by simp
qed

subsection \<open>The two callbacks\<close>

lemma upsert_Inl_why:
  "upsert fault now wh upd cre tbl = Inl e \<Longrightarrow> fault \<noteq> None \<or> \<not> valid_where wh"
  by (cases fault) (auto simp: upsert_def split: if_splits)

lemma upsert_Inr_why:
  "upsert fault now wh upd cre tbl = Inr t \<Longrightarrow> fault = None \<and> valid_where wh"
  by (cases fault) (auto simp: upsert_def split: if_splits)

lemma upsert_Inr_fault: "upsert fault now wh upd cre tbl = Inr t \<Longrightarrow> fault = None"
  by (cases fault) (auto simp: upsert_def)

lemma list_ex_update_first_keep:
  assumes "\<And>r. P r \<Longrightarrow> Q r \<Longrightarrow> Q (f r)"
  shows "list_ex Q tbl \<Longrightarrow> list_ex Q (update_first P f tbl)"
  using assms by (induction tbl) auto

lemma row_matches_same_columns:
  assumes ks: "key_safe wh upd" and m: "row_matches wh r"
    and cols: "fst ` set wh' \<subseteq> fst ` set wh" and m': "row_matches wh' r"
  shows "row_matches wh' (touch now upd r)"
proof -
  have "touch now upd r k = r k" if "k \<in> fst ` set wh'" for k
  proof -
    from that cols obtain v where "(k, v) \<in> set wh" by auto
    then show ?thesis by (rule touch_key_column [OF ks m])
  qed
  then show ?thesis
    using m' unfolding row_matches_def list_all_iff by force
qed

lemma upsert_keeps_stored:
  assumes one: "upsert fault now wh upd cre tbl = Inr t"
    and ks: "key_safe wh upd"
    and cols: "fst ` set wh' \<subseteq> fst ` set wh"
    and stored: "list_ex (row_matches wh') tbl"
  shows "list_ex (row_matches wh') t"
proof -
  have f: "fault = None" by (rule upsert_Inr_fault [OF one])
  note U = upsert_Inr [OF one [unfolded f]]
  show ?thesis
  proof (cases "list_ex (row_matches wh) tbl")
    case True
    show ?thesis
      unfolding U(2) [OF True] using stored
      by (rule list_ex_update_first_keep [rotated]) (rule row_matches_same_columns [OF ks _ cols])
  next
    case False
    show ?thesis
      unfolding U(3) [OF False] using stored by simp
  qed
qed

lemma upsert_stores:
  assumes one: "upsert fault now wh upd cre tbl = Inr t"
    and ks: "key_safe wh upd" and cc: "create_covers wh upd cre"
  shows "list_ex (row_matches wh) t"
proof -
  have f: "fault = None" by (rule upsert_Inr_fault [OF one])
  show ?thesis by (rule upsert_twice(2) [OF ks cc one [unfolded f]])
qed

lemma upsert_projection_cases:
  obtains e where "upsert_projection E fault now projection tbl = Inl e"
      "fault \<noteq> None \<or> \<not> valid_where (projection_key projection)"
  | t where "upsert_projection E fault now projection tbl = Inr t"
      "fault = None" "valid_where (projection_key projection)"
      "list_ex (row_matches (projection_key projection)) t"
      "\<And>p'. list_ex (row_matches (projection_key p')) tbl
         \<Longrightarrow> list_ex (row_matches (projection_key p')) t"
proof (cases "upsert_projection E fault now projection tbl")
  case (Inl e)
  then have u: "upsert fault now (projection_key projection)
      (projection_update projection (fst (parseISODatePreservingTimezone E now (projection ''startTime''))))
      (projection_create projection (fst (parseISODatePreservingTimezone E now (projection ''startTime''))))
      tbl = Inl e"
    by (simp add: upsert_projection_def projection_key_def Let_def)
  show ?thesis using Inl upsert_Inl_why [OF u] by (rule that(1))
next
  case (Inr t)
  then have u: "upsert fault now (projection_key projection)
      (projection_update projection (fst (parseISODatePreservingTimezone E now (projection ''startTime''))))
      (projection_create projection (fst (parseISODatePreservingTimezone E now (projection ''startTime''))))
      tbl = Inr t"
    by (simp add: upsert_projection_def projection_key_def Let_def)
  note ok = upsert_Inr_why [OF u]
  have st: "list_ex (row_matches (projection_key projection)) t"
    using u unfolding projection_key_def
    by (rule upsert_stores [OF _ projection_key_safe projection_create_covers])
  have kp: "list_ex (row_matches (projection_key p')) t"
    if "list_ex (row_matches (projection_key p')) tbl" for p'
  proof -
    have u': "upsert fault now [(''projectionId'', projection ''projectionId'')]
      (projection_update projection (fst (parseISODatePreservingTimezone E now (projection ''startTime''))))
      (projection_create projection (fst (parseISODatePreservingTimezone E now (projection ''startTime''))))
      tbl = Inr t"
      using u by (simp add: projection_key_def)
    show ?thesis
    proof (rule upsert_keeps_stored [OF u' projection_key_safe])
      show "fst ` set (projection_key p') \<subseteq> fst ` set [(''projectionId'', projection ''projectionId'')]"
        by (simp add: projection_key_def)
      show "list_ex (row_matches (projection_key p')) tbl" by (rule that)
    qed
  qed
  show ?thesis
  proof (rule that(2) [OF Inr])
    show "fault = None" using ok by simp
    show "valid_where (projection_key projection)" using ok by simp
    show "list_ex (row_matches (projection_key projection)) t" by (rule st)
    show "list_ex (row_matches (projection_key p')) t"
      if "list_ex (row_matches (projection_key p')) tbl" for p'
      using that by (rule kp)
  qed
qed

lemma store_projection_name:
  "outcome_name (fst (store_projection E clock faults i projection tbl)) = projection ''projectionId''"
  by (cases rule: upsert_projection_cases [of E "faults i" "clock i" projection tbl])
    (simp_all add: store_projection_def Let_def)

lemma store_projection_success:
  "is_success (fst (store_projection E clock faults i projection tbl))
     = (\<not> projection_throws E clock faults i projection)"
  by (cases rule: upsert_projection_cases [of E "faults i" "clock i" projection tbl])
    (auto simp: store_projection_def projection_throws_def Let_def)

lemma store_projection_stores:
  "\<not> projection_throws E clock faults i projection \<Longrightarrow>
     list_ex (row_matches (projection_key projection))
       (snd (store_projection E clock faults i projection tbl))"
  by (cases rule: upsert_projection_cases [of E "faults i" "clock i" projection tbl])
    (auto simp: store_projection_def projection_throws_def Let_def)

lemma store_projection_keeps:
  "list_ex (row_matches (projection_key p')) tbl \<Longrightarrow>
     list_ex (row_matches (projection_key p'))
       (snd (store_projection E clock faults i projection tbl))"
  by (cases rule: upsert_projection_cases [of E "faults i" "clock i" projection tbl])
    (auto simp: store_projection_def Let_def)


lemma upsert_gameStat_cases:
  obtains e where "upsert_gameStat E fault now playerId entry tbl = Inl e"
      "fault \<noteq> None \<or> \<not> valid_where (gameStat_key playerId entry)"
  | t where "upsert_gameStat E fault now playerId entry tbl = Inr t"
      "fault = None" "valid_where (gameStat_key playerId entry)"
      "list_ex (row_matches (gameStat_key playerId entry)) t"
      "\<And>entry'. list_ex (row_matches (gameStat_key playerId entry')) tbl
         \<Longrightarrow> list_ex (row_matches (gameStat_key playerId entry')) t"
proof (cases "upsert_gameStat E fault now playerId entry tbl")
  case (Inl e)
  then have u: "upsert fault now (gameStat_key playerId entry)
      (gameStatData E (fst entry) playerId (snd entry))
      ((gameStatData E (fst entry) playerId (snd entry))(''id'' := derived_id (fst entry) playerId))
      tbl = Inl e"
    by (simp add: upsert_gameStat_def gameStat_key_def Let_def)
  show ?thesis using Inl upsert_Inl_why [OF u] by (rule that(1))
next
  case (Inr t)
  then have u: "upsert fault now [(''gameId'', Some (JStr (fst entry))), (''playerId'', playerId)]
      (gameStatData E (fst entry) playerId (snd entry))
      ((gameStatData E (fst entry) playerId (snd entry))(''id'' := derived_id (fst entry) playerId))
      tbl = Inr t"
    by (simp add: upsert_gameStat_def Let_def)
  note ok = upsert_Inr_why [OF u]
  have st: "list_ex (row_matches (gameStat_key playerId entry)) t"
    unfolding gameStat_key_def
    by (rule upsert_stores [OF u gameStat_key_safe gameStat_create_covers])
  have kp: "list_ex (row_matches (gameStat_key playerId entry')) t"
    if "list_ex (row_matches (gameStat_key playerId entry')) tbl" for entry'
  proof (rule upsert_keeps_stored [OF u gameStat_key_safe])
    show "fst ` set (gameStat_key playerId entry')
            \<subseteq> fst ` set [(''gameId'', Some (JStr (fst entry))), (''playerId'', playerId)]"
      by (simp add: gameStat_key_def)
    show "list_ex (row_matches (gameStat_key playerId entry')) tbl" by (rule that)
  qed
  show ?thesis
  proof (rule that(2) [OF Inr])
    show "fault = None" using ok by simp
    show "valid_where (gameStat_key playerId entry)" using ok by (simp add: gameStat_key_def)
    show "list_ex (row_matches (gameStat_key playerId entry)) t" by (rule st)
    show "list_ex (row_matches (gameStat_key playerId entry')) t"
      if "list_ex (row_matches (gameStat_key playerId entry')) tbl" for entry'
      using that by (rule kp)
  qed
qed

lemma store_gameStat_name:
  "outcome_name (fst (store_gameStat E clock faults playerId i entry tbl)) = Some (JStr (fst entry))"
  by (cases rule: upsert_gameStat_cases [of E "faults i" "clock i" playerId entry tbl])
    (simp_all add: store_gameStat_def)

lemma store_gameStat_success:
  "is_success (fst (store_gameStat E clock faults playerId i entry tbl))
     = (\<not> gameStat_throws faults playerId i entry)"
  by (cases rule: upsert_gameStat_cases [of E "faults i" "clock i" playerId entry tbl])
    (auto simp: store_gameStat_def gameStat_throws_def)

lemma store_gameStat_stores:
  "\<not> gameStat_throws faults playerId i entry \<Longrightarrow>
     list_ex (row_matches (gameStat_key playerId entry))
       (snd (store_gameStat E clock faults playerId i entry tbl))"
  by (cases rule: upsert_gameStat_cases [of E "faults i" "clock i" playerId entry tbl])
    (auto simp: store_gameStat_def gameStat_throws_def)

lemma store_gameStat_keeps:
  "list_ex (row_matches (gameStat_key playerId entry')) tbl \<Longrightarrow>
     list_ex (row_matches (gameStat_key playerId entry'))
       (snd (store_gameStat E clock faults playerId i entry tbl))"
  by (cases rule: upsert_gameStat_cases [of E "faults i" "clock i" playerId entry tbl])
    (auto simp: store_gameStat_def)

subsection \<open>Batches of objects and batches with a \<open>null\<close>\<close>

lemma promise_all_objects:
  assumes "\<And>i x tbl. callback i (Some x) tbl = Some (step i x tbl)"
  shows "promise_all callback i (map Some xs) tbl = Some (run_batch step i xs tbl)"
  using assms by (induction xs arbitrary: i tbl) (auto simp: split_beta Let_def)

lemma promise_all_rejects:
  assumes "\<And>i tbl. callback i x tbl = None" and "x \<in> set xs"
  shows "promise_all callback i xs tbl = None"
  using assms by (induction xs arbitrary: i tbl) (auto split: option.splits)

lemma storeProjections_objects:
  "storeProjections E clock faults (map Some projections) tbl
     = Some (run_batch (store_projection E clock faults) 0 projections tbl)"
  unfolding storeProjections_def
  by (rule promise_all_objects) (simp add: projection_callback_def)

lemma storeProjections_null:
  "None \<in> set projections \<Longrightarrow> storeProjections E clock faults projections tbl = None"
  unfolding storeProjections_def
  by (rule promise_all_rejects [where x = None]) (simp_all add: projection_callback_def)

lemma run_batch_map:
  assumes "\<And>i x tbl. step' i (g x) tbl = step i x tbl"
  shows "run_batch step' i (map g xs) tbl = run_batch step i xs tbl"
  using assms by (induction xs arbitrary: i tbl) (auto simp: split_beta Let_def)

lemma storeGameStats_objects:
  "storeGameStats E clock faults playerId (map (\<lambda>g. (fst g, Some (snd g))) games) tbl
     = run_batch (store_gameStat E clock faults playerId) 0 games tbl"
  unfolding storeGameStats_def
  by (rule run_batch_map) (simp add: gameStat_callback_def)

lemma run_batch_exact:
  assumes "\<And>i r tbl. step i r tbl = (out i r, eff i r tbl)"
  shows "run_batch step i rs tbl
           = (map (\<lambda>(j, r). out j r) (List.enumerate i rs),
              foldl (\<lambda>t (j, r). eff j r t) tbl (List.enumerate i rs))"
  using assms by (induction rs arbitrary: i tbl) (auto simp: split_beta Let_def)

lemma run_batch_append:
  "run_batch step i (xs @ ys) tbl
     = (fst (run_batch step i xs tbl)
          @ fst (run_batch step (i + length xs) ys (snd (run_batch step i xs tbl))),
        snd (run_batch step (i + length xs) ys (snd (run_batch step i xs tbl))))"
  by (induction xs arbitrary: i tbl) (auto simp: split_beta Let_def)

lemma upsert_projection_result:
  "upsert_projection E fault now projection tbl
     = (case fault of
          Some e \<Rightarrow> Inl e
        | None \<Rightarrow>
            if valid_where (projection_key projection)
            then Inr (projection_written E (\<lambda>i. now) 0 projection tbl)
            else Inl (PrismaError ''Invalid where argument''))"
  by (cases fault)
    (auto simp: upsert_projection_def upsert_def projection_written_def projection_key_def Let_def)

lemma projection_written_clock:
  "projection_written E (\<lambda>j. clock i) 0 projection tbl = projection_written E clock i projection tbl"
  by (simp add: projection_written_def)

lemma store_projection_exact:
  "store_projection E clock faults i projection tbl
     = (case projection_thrown E clock faults i projection of
          Some e \<Rightarrow> (Failure (projection ''projectionId'') e, tbl)
        | None \<Rightarrow> (Success (projection ''projectionId''),
                   projection_written E clock i projection tbl))"
  by (cases "faults i")
    (auto simp: store_projection_def projection_thrown_def upsert_projection_result
      projection_written_clock Let_def)

text \<open>
  A batch of projections that are all objects: the outcomes carry, record by record, the
  record's id and what its reconciliation threw, and the table at the end is the table at
  the start with the upserts of the records that threw nothing applied in order; a
  record that threw contributes nothing and undoes nothing.
\<close>

lemma storeProjections_objects_exact:
  "storeProjections E clock faults (map Some projections) tbl
     = Some
        (map (\<lambda>(i, p). case projection_thrown E clock faults i p of
                          Some e \<Rightarrow> Failure (p ''projectionId'') e
                        | None \<Rightarrow> Success (p ''projectionId''))
           (List.enumerate 0 projections),
         foldl (\<lambda>t (i, p). case projection_thrown E clock faults i p of
                             Some e \<Rightarrow> t
                           | None \<Rightarrow> projection_written E clock i p t)
           tbl (List.enumerate 0 projections))"
  unfolding storeProjections_objects
  by (simp add: run_batch_exact
      [where out = "\<lambda>i p. case projection_thrown E clock faults i p of
                          Some e \<Rightarrow> Failure (p ''projectionId'') e
                        | None \<Rightarrow> Success (p ''projectionId'')"
        and eff = "\<lambda>i p t. case projection_thrown E clock faults i p of
                             Some e \<Rightarrow> t
                           | None \<Rightarrow> projection_written E clock i p t"]
      store_projection_exact split: option.splits)


text \<open>
  For batches of objects: an outcome for each record under the record's name, a failure
  exactly when the reconciliation throws, the tally of \<open>N - K\<close> successes and \<open>K\<close> errors,
  and every record that succeeded in the table at the end.
\<close>

lemma object_batch_tally:
  "length (fst (run_batch (store_projection E clock faults) 0 projections tbl)) = length projections
   \<and> map outcome_name (fst (run_batch (store_projection E clock faults) 0 projections tbl))
       = map (\<lambda>p. p ''projectionId'') projections
   \<and> map is_success (fst (run_batch (store_projection E clock faults) 0 projections tbl))
       = map (\<lambda>(i, p). \<not> projection_throws E clock faults i p) (List.enumerate 0 projections)
   \<and> successCount (fst (run_batch (store_projection E clock faults) 0 projections tbl))
       = length projections
         - length (filter (\<lambda>(i, p). projection_throws E clock faults i p)
             (List.enumerate 0 projections))
   \<and> length (errors (fst (run_batch (store_projection E clock faults) 0 projections tbl)))
       = length (filter (\<lambda>(i, p). projection_throws E clock faults i p)
           (List.enumerate 0 projections))
   \<and> list_all (\<lambda>(i, p). projection_throws E clock faults i p
          \<or> list_ex (row_matches (projection_key p))
               (snd (run_batch (store_projection E clock faults) 0 projections tbl)))
        (List.enumerate 0 projections)
   \<and> length (fst (run_batch (store_gameStat E clock gfaults playerId) 0 games gtbl)) = length games
   \<and> map outcome_name (fst (run_batch (store_gameStat E clock gfaults playerId) 0 games gtbl))
       = map (\<lambda>g. Some (JStr (fst g))) games
   \<and> map is_success (fst (run_batch (store_gameStat E clock gfaults playerId) 0 games gtbl))
       = map (\<lambda>(i, g). \<not> gameStat_throws gfaults playerId i g) (List.enumerate 0 games)
   \<and> successCount (fst (run_batch (store_gameStat E clock gfaults playerId) 0 games gtbl))
       = length games
         - length (filter (\<lambda>(i, g). gameStat_throws gfaults playerId i g)
             (List.enumerate 0 games))
   \<and> length (errors (fst (run_batch (store_gameStat E clock gfaults playerId) 0 games gtbl)))
       = length (filter (\<lambda>(i, g). gameStat_throws gfaults playerId i g)
           (List.enumerate 0 games))
   \<and> list_all (\<lambda>(i, g). gameStat_throws gfaults playerId i g
          \<or> list_ex (row_matches (gameStat_key playerId g))
               (snd (run_batch (store_gameStat E clock gfaults playerId) 0 games gtbl)))
        (List.enumerate 0 games)"
proof -
  let ?pr = "fst (run_batch (store_projection E clock faults) 0 projections tbl)"
  let ?gr = "fst (run_batch (store_gameStat E clock gfaults playerId) 0 games gtbl)"
  have p1: "length ?pr = length projections"
    by (simp add: run_batch_length)
  have p2: "map outcome_name ?pr = map (\<lambda>p. p ''projectionId'') projections"
    by (rule run_batch_names) (rule store_projection_name)
  have p3: "map is_success ?pr
       = map (\<lambda>(i, p). \<not> projection_throws E clock faults i p) (List.enumerate 0 projections)"
    by (rule run_batch_successes) (rule store_projection_success)
  note p4 = count_successes [OF p3]
  have p5: "list_all (\<lambda>(i, p). projection_throws E clock faults i p
          \<or> list_ex (row_matches (projection_key p))
               (snd (run_batch (store_projection E clock faults) 0 projections tbl)))
        (List.enumerate 0 projections)"
    by (rule run_batch_stored) (erule store_projection_stores, erule store_projection_keeps)
  have g1: "length ?gr = length games"
    by (simp add: run_batch_length)
  have g2: "map outcome_name ?gr = map (\<lambda>g. Some (JStr (fst g))) games"
    by (rule run_batch_names) (rule store_gameStat_name)
  have g3: "map is_success ?gr
       = map (\<lambda>(i, g). \<not> gameStat_throws gfaults playerId i g) (List.enumerate 0 games)"
    by (rule run_batch_successes) (rule store_gameStat_success)
  note g4 = count_successes [OF g3]
  have g5: "list_all (\<lambda>(i, g). gameStat_throws gfaults playerId i g
          \<or> list_ex (row_matches (gameStat_key playerId g))
               (snd (run_batch (store_gameStat E clock gfaults playerId) 0 games gtbl)))
        (List.enumerate 0 games)"
    by (rule run_batch_stored) (erule store_gameStat_stores, erule store_gameStat_keeps)
  show ?thesis
    using p1 p2 p3 p4 p5 g1 g2 g3 g4 g5 by blast
qed



text \<open>The example batch, all objects: one projection stored, one refused by the store, one
  failing in the debug block, each failure with what was thrown; and two games, the
  second refused by the store.\<close>

lemma example_batch_outcomes:
  "map_option fst
     (storeProjections example_engine example_clock example_faults (map Some example_batch) [])
     = Some [Success (Some (JStr ''pr1'')),
             Failure (Some (JStr ''pr2'')) (PrismaError ''connection lost''),
             Failure (Some (JStr ''pr3'')) TypeError]
   \<and> fst (storeGameStats example_engine example_clock example_faults (Some (JStr ''p1''))
        (map (\<lambda>g. (fst g, Some (snd g))) example_games) [])
       = [Success (Some (JStr ''g1'')),
          Failure (Some (JStr ''g2'')) (PrismaError ''connection lost'')]"
  by code_simp

text \<open>
  Claim C3 on the code. The claim holds of the game statistics script, and of the
  projections script as long as every element of the array is an object (lemmas
  \<open>object_batch_tally\<close> and \<open>storeProjections_objects_exact\<close>). It fails in the projections script for a batch with a \<open>null\<close> element:
  the \<open>catch\<close> of the callback evaluates \<open>projection.projectionId\<close> and throws again, the
  batch rejects, and the script exits with code 1 without a tally, although the
  reconciliation of the other record threw nothing. The game statistics script names a
  failure by the game id and reports the \<open>null\<close> as one failure among the outcomes.
\<close>

theorem storeProjections_null_element_rejects:
  "map_option fst
     (storeProjections example_engine example_clock example_no_faults [Some example_projection] [])
     = Some [Success (Some (JStr ''pr1''))]
   \<and> storeProjections example_engine example_clock example_no_faults
        [Some example_projection, None] [] = None
   \<and> fst (storeGameStats example_engine example_clock example_no_faults (Some (JStr ''p1''))
        [(''g1'', Some example_gameStat), (''g2'', None)] [])
       = [Success (Some (JStr ''g1'')), Failure (Some (JStr ''g2'')) TypeError]"
proof -
  have a: "map_option fst
     (storeProjections example_engine example_clock example_no_faults [Some example_projection] [])
     = Some [Success (Some (JStr ''pr1''))]"
    by code_simp
  have b: "storeProjections example_engine example_clock example_no_faults
        [Some example_projection, None] [] = None"
    by (rule storeProjections_null) simp
  have c: "fst (storeGameStats example_engine example_clock example_no_faults (Some (JStr ''p1''))
        [(''g1'', Some example_gameStat), (''g2'', None)] [])
       = [Success (Some (JStr ''g1'')), Failure (Some (JStr ''g2'')) TypeError]"
    by code_simp
  show ?thesis using a b c by blast
qed

section \<open>Strings that do not match the pattern\<close>

text \<open>
  Claim C9. The empty string is the missing input of the guard in the first line of the
  normalizer; a string that reaches the pattern test is not empty. For such a string
  that does not match the pattern, the normalizer returns what the generic \<open>Date\<close>
  constructor makes of the string and writes one warning that quotes it; it throws
  nothing. A projection with such a start time does not stop its batch: among the first
  three records it fails alone with a RangeError when the fallback gave the Invalid
  Date, otherwise it goes to the store with the fallback value as its start time; and
  in a batch of objects the records before it and after it have their outcomes, the
  records after it being processed on the table that its callback left.
\<close>

theorem parseISO_unmatched_falls_back:
  assumes "s \<noteq> []" and "iso_match s = None"
    and "projection ''startTime'' = Some (JStr s)"
  shows "parseISODatePreservingTimezone E now (Some (JStr s))
           = (date_parse E s,
              [ConsoleWarn (''Warning: Date string doesn't match expected format: '' @ s)])
         \<and> store_projection E clock faults i projection tbl
           = (if i < 3 \<and> date_parse E s = None
              then (Failure (projection ''projectionId'') RangeError, tbl)
              else
                case upsert (faults i) (clock i) (projection_key projection)
                       (projection_update projection (date_parse E s))
                       (projection_create projection (date_parse E s)) tbl of
                  Inl e \<Rightarrow> (Failure (projection ''projectionId'') e, tbl)
                | Inr tbl' \<Rightarrow> (Success (projection ''projectionId''), tbl'))
         \<and> storeProjections E clock faults (map Some (before @ projection # after)) tbl
           = Some
              (fst (run_batch (store_projection E clock faults) 0 before tbl)
                 @ fst (store_projection E clock faults (length before) projection
                          (snd (run_batch (store_projection E clock faults) 0 before tbl)))
                 # fst (run_batch (store_projection E clock faults) (Suc (length before)) after
                          (snd (store_projection E clock faults (length before) projection
                             (snd (run_batch (store_projection E clock faults) 0 before tbl))))),
               snd (run_batch (store_projection E clock faults) (Suc (length before)) after
                      (snd (store_projection E clock faults (length before) projection
                         (snd (run_batch (store_projection E clock faults) 0 before tbl))))))"
proof -
  have parse: "parseISODatePreservingTimezone E n (Some (JStr s))
           = (date_parse E s,
              [ConsoleWarn (''Warning: Date string doesn't match expected format: '' @ s)])" for n
    using assms(1,2)
    by (simp add: parseISODatePreservingTimezone_def truthy_def new_Date_def)
  have one: "store_projection E clock faults i projection tbl
           = (if i < 3 \<and> date_parse E s = None
              then (Failure (projection ''projectionId'') RangeError, tbl)
              else
                case upsert (faults i) (clock i) (projection_key projection)
                       (projection_update projection (date_parse E s))
                       (projection_create projection (date_parse E s)) tbl of
                  Inl e \<Rightarrow> (Failure (projection ''projectionId'') e, tbl)
                | Inr tbl' \<Rightarrow> (Success (projection ''projectionId''), tbl'))"
    by (simp add: store_projection_def upsert_projection_def assms(3) parse is_string_def
        projection_key_def Let_def)
  have batch: "run_batch (store_projection E clock faults) 0 (before @ projection # after) tbl
           = (fst (run_batch (store_projection E clock faults) 0 before tbl)
                 @ fst (store_projection E clock faults (length before) projection
                          (snd (run_batch (store_projection E clock faults) 0 before tbl)))
                 # fst (run_batch (store_projection E clock faults) (Suc (length before)) after
                          (snd (store_projection E clock faults (length before) projection
                             (snd (run_batch (store_projection E clock faults) 0 before tbl))))),
               snd (run_batch (store_projection E clock faults) (Suc (length before)) after
                      (snd (store_projection E clock faults (length before) projection
                         (snd (run_batch (store_projection E clock faults) 0 before tbl))))))"
    by (simp add: run_batch_append split_beta Let_def)
  show ?thesis
    using parse [of now] one by (simp only: storeProjections_objects batch simp_thms)
qed

text \<open>The start time \<open>"tomorrow"\<close> with an engine that makes the Invalid Date of it, as the
  second of three projections.\<close>

theorem parseISO_unmatched_falls_back_witness:
  "''tomorrow'' \<noteq> [] \<and> iso_match ''tomorrow'' = None
   \<and> example_projection_bad_date ''startTime'' = Some (JStr ''tomorrow'')
   \<and> parseISODatePreservingTimezone example_engine 7 (Some (JStr ''tomorrow''))
       = (None, [ConsoleWarn ''Warning: Date string doesn't match expected format: tomorrow''])
   \<and> store_projection example_engine example_clock example_no_faults 1
        example_projection_bad_date []
       = (Failure (Some (JStr ''pr9'')) RangeError, [])
   \<and> map_option fst
        (storeProjections example_engine example_clock example_no_faults
           (map Some ([example_projection] @ example_projection_bad_date # [example_projection])) [])
       = Some [Success (Some (JStr ''pr1'')), Failure (Some (JStr ''pr9'')) RangeError,
               Success (Some (JStr ''pr1''))]"
proof -
  have a: "''tomorrow'' \<noteq> []" by simp
  have b: "iso_match ''tomorrow'' = None" by code_simp
  have c: "example_projection_bad_date ''startTime'' = Some (JStr ''tomorrow'')" by code_simp
  have d: "date_parse example_engine ''tomorrow'' = None" by (simp add: example_engine_def)
  have i: "example_projection_bad_date ''projectionId'' = Some (JStr ''pr9'')" by code_simp
  have r: "map_option fst
        (storeProjections example_engine example_clock example_no_faults
           (map Some ([example_projection] @ example_projection_bad_date # [example_projection])) [])
       = Some [Success (Some (JStr ''pr1'')), Failure (Some (JStr ''pr9'')) RangeError,
               Success (Some (JStr ''pr1''))]"
    by code_simp
  note T = parseISO_unmatched_falls_back [where s = "''tomorrow''"
      and projection = example_projection_bad_date and E = example_engine and now = 7
      and clock = example_clock and faults = example_no_faults and i = 1 and tbl = "[]"
      and before = "[example_projection]" and after = "[example_projection]", OF a b c]
  from T have p: "parseISODatePreservingTimezone example_engine 7 (Some (JStr ''tomorrow''))
       = (None, [ConsoleWarn ''Warning: Date string doesn't match expected format: tomorrow''])"
    by (simp add: d)
  from T have o: "store_projection example_engine example_clock example_no_faults 1
        example_projection_bad_date []
       = (Failure (Some (JStr ''pr9'')) RangeError, [])"
    by (simp add: d i)
  show ?thesis using a b c p o r by blast
qed

text \<open>The guard before the pattern test: for the empty string the result is the reading
  of the clock and nothing is written.\<close>

lemma parseISO_empty_string:
  "parseISODatePreservingTimezone E now (Some (JStr [])) = (Some now, [])"
  by (simp add: parseISODatePreservingTimezone_def truthy_def)

section \<open>Deleting old projections\<close>

text \<open>
  Claim C8. With the one reading \<open>currentTime\<close> of the clock, and when the store carries
  the statement out, the table afterwards is the table before without the rows whose
  start time is earlier than \<open>currentTime\<close>: those rows are gone, the others are there
  unchanged and in their order, and the count reported is the number of rows deleted. A
  start time equal to or later than \<open>currentTime\<close> is not earlier.
\<close>

theorem deleteOldProjections_strictly_before:
  "snd (deleteOldProjections currentTime None tbl)
     = filter (\<lambda>r. \<not> startTime_lt currentTime r) tbl
   \<and> fst (deleteOldProjections currentTime None tbl)
       = Deleted (length (filter (startTime_lt currentTime) tbl))
   \<and> (\<forall>r t. r ''startTime'' = Some (JDate (Some t))
         \<longrightarrow> startTime_lt currentTime r = (t < currentTime))"
  by (simp add: deleteOldProjections_def deleteMany_def startTime_lt_def)

text \<open>Start times 5, 10 and 15 at clock reading 10: the row with 5 goes, 10 and 15 stay.\<close>

theorem deleteOldProjections_strictly_before_witness:
  "map (\<lambda>r. r ''startTime'') (snd (deleteOldProjections 10 None example_table))
     = [Some (JDate (Some 10)), Some (JDate (Some 15))]
   \<and> fst (deleteOldProjections 10 None example_table) = Deleted 1
   \<and> snd (deleteOldProjections 10 None example_table)
       = filter (\<lambda>r. \<not> startTime_lt 10 r) example_table"
proof -
  have a: "map (\<lambda>r. r ''startTime'') (snd (deleteOldProjections 10 None example_table))
     = [Some (JDate (Some 10)), Some (JDate (Some 15))]"
    by code_simp
  have b: "fst (deleteOldProjections 10 None example_table) = Deleted 1" by code_simp
  from deleteOldProjections_strictly_before [of 10 example_table]
  show ?thesis using a b by blast
qed

section \<open>The odds update\<close>

lemma odds_update_no_match:
  assumes "filter (row_matches (game_filter gameId)) tbl = []"
  shows "updateProjectionsWithOdds E now None fault_update gameId oddsData tbl
           = (NoProjections ''No projections found for this game ID'', tbl)"
  using assms by (simp add: updateProjectionsWithOdds_def findMany_def game_filter_def)

lemma odds_update_match:
  assumes "filter (row_matches (game_filter gameId)) tbl \<noteq> []"
  shows "updateProjectionsWithOdds E now None fault_update gameId oddsData tbl
           = (case fault_update of
                None \<Rightarrow>
                  (Updated (length (filter (row_matches (game_filter gameId)) tbl)),
                   map (\<lambda>r. if row_matches (game_filter gameId) r
                             then touch now (odds_patch E now oddsData) r else r) tbl)
              | Some e \<Rightarrow> (UpdateError e, tbl))"
  using assms
  by (cases fault_update)
    (simp_all add: updateProjectionsWithOdds_def findMany_def updateMany_def game_filter_def)

text \<open>
  Claim C4. When at least one projection has the game id and the lookup succeeds, the
  function issues one bulk update with one patch. Either the store carries it out, and
  then every row with the game id is the old row overwritten with the patch (and a fresh
  \<open>updatedAt\<close>), every other row is as before and the count is the number of rows with
  the game id; or the store throws, and then the table is as before and the result
  reports the error. That the bulk update is one statement which the store applies as a
  whole or not at all is how the store is modelled.
\<close>

theorem odds_update_all_or_nothing:
  assumes "filter (row_matches (game_filter gameId)) tbl \<noteq> []"
  shows "(fault_update = None
          \<and> fst (updateProjectionsWithOdds E now None fault_update gameId oddsData tbl)
              = Updated (length (filter (row_matches (game_filter gameId)) tbl))
          \<and> snd (updateProjectionsWithOdds E now None fault_update gameId oddsData tbl)
              = map (\<lambda>r. if row_matches (game_filter gameId) r
                          then touch now (odds_patch E now oddsData) r else r) tbl)
       \<or> (\<exists>e. fault_update = Some e
          \<and> fst (updateProjectionsWithOdds E now None fault_update gameId oddsData tbl)
              = UpdateError e
          \<and> snd (updateProjectionsWithOdds E now None fault_update gameId oddsData tbl) = tbl)"
  unfolding odds_update_match [OF assms]
  by (cases fault_update) simp_all

text \<open>The example table has two projections of the game \<open>g1\<close>: with a store that works
  both get the home team of the odds; with a store that throws both keep none.\<close>

theorem odds_update_all_or_nothing_witness:
  "filter (row_matches (game_filter ''g1'')) example_table \<noteq> []
   \<and> fst (updateProjectionsWithOdds example_engine 20 None None ''g1'' example_odds example_table)
       = Updated 2
   \<and> map (\<lambda>r. r ''homeTeam'')
        (snd (updateProjectionsWithOdds example_engine 20 None None ''g1'' example_odds example_table))
       = [Some (JStr ''CHI''), None, Some (JStr ''CHI'')]
   \<and> map (\<lambda>r. r ''homeTeam'')
        (snd (updateProjectionsWithOdds example_engine 20 None (Some (PrismaError ''connection lost''))
           ''g1'' example_odds example_table))
       = [None, None, None]
   \<and> snd (updateProjectionsWithOdds example_engine 20 None (Some (PrismaError ''connection lost''))
           ''g1'' example_odds example_table) = example_table"
proof -
  have m: "filter (row_matches (game_filter ''g1'')) example_table \<noteq> []"
    by (simp add: example_table_def game_filter_def row_matches_def obj_of_def)
  have a: "fst (updateProjectionsWithOdds example_engine 20 None None ''g1'' example_odds example_table)
       = Updated 2"
    by code_simp
  have b: "map (\<lambda>r. r ''homeTeam'')
        (snd (updateProjectionsWithOdds example_engine 20 None None ''g1'' example_odds example_table))
       = [Some (JStr ''CHI''), None, Some (JStr ''CHI'')]"
    by code_simp
  have c: "map (\<lambda>r. r ''homeTeam'')
        (snd (updateProjectionsWithOdds example_engine 20 None (Some (PrismaError ''connection lost''))
           ''g1'' example_odds example_table))
       = [None, None, None]"
    by code_simp
  from odds_update_all_or_nothing [OF m, of "Some (PrismaError ''connection lost'')" example_engine 20
      example_odds]
  have "snd (updateProjectionsWithOdds example_engine 20 None (Some (PrismaError ''connection lost''))
           ''g1'' example_odds example_table) = example_table"
    by simp
  with m a b c show ?thesis by blast
qed

text \<open>
  Claim C5, as the code has it. When no projection has the game id and the lookup
  succeeds, the function returns the object \<open>{success: false, message: 'No projections
  found for this game ID'}\<close> and leaves the table as it is: nothing is created, nothing is
  changed, nothing is thrown. The object says \<open>success: false\<close>, and the command line
  turns that into the exit code 1.
\<close>

theorem odds_update_no_match_result:
  assumes "filter (row_matches (game_filter gameId)) tbl = []"
  shows "updateProjectionsWithOdds E now None fault_update gameId oddsData tbl
           = (NoProjections ''No projections found for this game ID'', tbl)
         \<and> \<not> success (fst (updateProjectionsWithOdds E now None fault_update gameId oddsData tbl))
         \<and> odds_exit_code (fst (updateProjectionsWithOdds E now None fault_update gameId oddsData tbl))
             = 1"
  by (simp add: odds_update_no_match [OF assms] odds_exit_code_def)

theorem odds_update_no_match_result_witness:
  "filter (row_matches (game_filter ''g9'')) example_table = []
   \<and> updateProjectionsWithOdds example_engine 20 None None ''g9'' example_odds example_table
       = (NoProjections ''No projections found for this game ID'', example_table)"
proof -
  have m: "filter (row_matches (game_filter ''g9'')) example_table = []"
    by (simp add: example_table_def game_filter_def row_matches_def obj_of_def)
  from odds_update_no_match_result [OF m, of example_engine 20 None example_odds]
  show ?thesis using m by simp
qed

text \<open>Not found is reported as a failure: the result has \<open>success: false\<close> and the process
  exits with code 1.\<close>

theorem odds_update_no_match_result_counterexample:
  "success (fst (updateProjectionsWithOdds example_engine 20 None None ''g9'' example_odds
      example_table)) = False
   \<and> odds_exit_code (fst (updateProjectionsWithOdds example_engine 20 None None ''g9'' example_odds
        example_table)) = 1"
  by code_simp

section \<open>A spread or total of zero\<close>

lemma odds_patch_spreads:
  assumes "f \<in> set [''homeSpread'', ''awaySpread'', ''totalOver'', ''totalUnder'']"
  shows "odds_patch E now oddsData f = Some (or_null (parseFloat (oddsData f)))"
  using assms by (auto simp: odds_patch_def obj_of_def)

lemma touch_patched:
  "f \<noteq> ''updatedAt'' \<Longrightarrow> data f = Some v \<Longrightarrow> touch now data r f = Some v"
  by (simp add: touch_def map_add_def)

text \<open>
  Claim C10. Let the payload's value of one of \<open>homeSpread\<close>, \<open>awaySpread\<close>, \<open>totalOver\<close>,
  \<open>totalUnder\<close> parse to the number 0. Then the patch holds \<open>null\<close> for that column, as it
  does for a value that does not parse to a number, and after an update that succeeded
  every row with the game id holds \<open>null\<close> in that column.
\<close>

theorem odds_zero_stored_as_null:
  assumes f: "f \<in> set [''homeSpread'', ''awaySpread'', ''totalOver'', ''totalUnder'']"
    and zero: "parseFloat (oddsData f) = Fin 0"
    and upd: "updateProjectionsWithOdds E now None None gameId oddsData tbl = (Updated n, tbl')"
  shows "odds_patch E now oddsData f = Some JNull
       \<and> or_null (Fin 0) = or_null NaN
       \<and> length tbl' = length tbl
       \<and> (\<forall>i < length tbl. row_matches (game_filter gameId) (tbl ! i) \<longrightarrow> (tbl' ! i) f = Some JNull)"
proof -
  have p: "odds_patch E now oddsData f = Some JNull"
    by (simp add: odds_patch_spreads [OF f] zero or_null_def truthy_def)
  have u: "f \<noteq> ''updatedAt''" using f by auto
  have m: "filter (row_matches (game_filter gameId)) tbl \<noteq> []"
  proof
    assume "filter (row_matches (game_filter gameId)) tbl = []"
    from odds_update_no_match [OF this, of E now None oddsData] upd show False by simp
  qed
  have t: "tbl' = map (\<lambda>r. if row_matches (game_filter gameId) r
                          then touch now (odds_patch E now oddsData) r else r) tbl"
    using upd unfolding odds_update_match [OF m] by simp
  have "(tbl' ! i) f = Some JNull"
    if "i < length tbl" "row_matches (game_filter gameId) (tbl ! i)" for i
    using that u p by (simp add: t touch_patched)
  then show ?thesis
    using p by (simp add: t or_null_def truthy_def)
qed

text \<open>The example odds carry the home spread \<open>"0"\<close>; the first projection of the game had
  a home spread of 2 before.\<close>

theorem odds_zero_stored_as_null_witness:
  "''homeSpread'' \<in> set [''homeSpread'', ''awaySpread'', ''totalOver'', ''totalUnder'']
   \<and> parseFloat (example_odds ''homeSpread'') = Fin 0
   \<and> fst (updateProjectionsWithOdds example_engine 20 None None ''g1'' example_odds example_table)
       = Updated 2
   \<and> map (\<lambda>r. r ''homeSpread'') example_table = [Some (JNum (Fin 2)), None, None]
   \<and> map (\<lambda>r. r ''homeSpread'')
        (snd (updateProjectionsWithOdds example_engine 20 None None ''g1'' example_odds example_table))
       = [Some JNull, None, Some JNull]
   \<and> odds_patch example_engine 20 example_odds ''homeSpread'' = Some JNull"
proof -
  have a: "''homeSpread'' \<in> set [''homeSpread'', ''awaySpread'', ''totalOver'', ''totalUnder'']"
    by simp
  have z: "parseFloat (example_odds ''homeSpread'') = Fin 0" by code_simp
  have r: "fst (updateProjectionsWithOdds example_engine 20 None None ''g1'' example_odds example_table)
       = Updated 2"
    by code_simp
  have u: "updateProjectionsWithOdds example_engine 20 None None ''g1'' example_odds example_table
       = (Updated 2,
          snd (updateProjectionsWithOdds example_engine 20 None None ''g1'' example_odds example_table))"
    using r by (metis prod.collapse)
  have b: "map (\<lambda>r. r ''homeSpread'') example_table = [Some (JNum (Fin 2)), None, None]"
    by code_simp
  have c: "map (\<lambda>r. r ''homeSpread'')
        (snd (updateProjectionsWithOdds example_engine 20 None None ''g1'' example_odds example_table))
       = [Some JNull, None, Some JNull]"
    by code_simp
  from odds_zero_stored_as_null [OF a z u]
  have "odds_patch example_engine 20 example_odds ''homeSpread'' = Some JNull" by blast
  with a z r b c show ?thesis by blast
qed

section \<open>Numeric fields of a game's statistics\<close>

text \<open>
  Claim C6, as the code has it. Every column of the data that goes to the store is
  computed from its own property of the incoming record: the sixteen numeric columns are
  \<open>parseFloat\<close> of their property, so a property that does not parse gives the number
  NaN in its column (not \<open>null\<close>, and the column is not left out) and leaves every other
  column as it would be; twelve columns are copied; the game id, the player id and the
  game date make up the rest. The record then goes to the store in one upsert, and its
  outcome is a failure exactly when the store throws or rejects the key.
\<close>

theorem gameStat_fields_coerced:
  "list_all (\<lambda>(col, src). gameStatData E gameId playerId gameStat col
                = Some (JNum (parseFloat (gameStat src)))) numeric_fields
   \<and> list_all (\<lambda>(col, src). gameStatData E gameId playerId gameStat col = gameStat src)
        copied_fields
   \<and> gameStatData E gameId playerId gameStat ''gameId'' = Some (JStr gameId)
   \<and> gameStatData E gameId playerId gameStat ''playerId'' = playerId
   \<and> gameStatData E gameId playerId gameStat ''gameDate''
       = Some (JDate (new_Date E (gameStat ''game_date'')))
   \<and> is_success (fst (store_gameStat E clock faults playerId i (gameId, gameStat) tbl))
       = (\<not> gameStat_throws faults playerId i (gameId, gameStat))"
  using gameStatData_numeric [of E gameId playerId gameStat]
    gameStatData_copied [of E gameId playerId gameStat]
    gameStatData_key_columns(1,2) [of E gameId playerId gameStat]
    gameStatData_gameDate [of E gameId playerId gameStat]
    store_gameStat_success [of E clock faults playerId i "(gameId, gameStat)" tbl]
  by blast

text \<open>The example statistics have the points \<open>"abc"\<close> and the rebounds \<open>"7"\<close>.\<close>

theorem gameStat_fields_coerced_witness:
  "gameStatData example_engine ''g1'' (Some (JStr ''p1'')) example_gameStat ''points''
     = Some (JNum (parseFloat (example_gameStat ''pts'')))
   \<and> parseFloat (example_gameStat ''pts'') = NaN
   \<and> gameStatData example_engine ''g1'' (Some (JStr ''p1'')) example_gameStat ''rebounds''
       = Some (JNum (parseFloat (example_gameStat ''reb'')))
   \<and> parseFloat (example_gameStat ''reb'') = Fin 7
   \<and> gameStatData example_engine ''g1'' (Some (JStr ''p1'')) example_gameStat ''playerName''
       = Some (JStr ''A. Player'')
   \<and> is_success (fst (store_gameStat example_engine example_clock example_faults
        (Some (JStr ''p1'')) 0 (''g1'', example_gameStat) []))"
proof -
  note T = gameStat_fields_coerced [of example_engine "''g1''" "Some (JStr ''p1'')" example_gameStat
      example_clock example_faults 0 "[]"]
  from T have n: "list_all (\<lambda>(col, src).
      gameStatData example_engine ''g1'' (Some (JStr ''p1'')) example_gameStat col
        = Some (JNum (parseFloat (example_gameStat src)))) numeric_fields"
    by blast
  from T have c: "list_all (\<lambda>(col, src).
      gameStatData example_engine ''g1'' (Some (JStr ''p1'')) example_gameStat col
        = example_gameStat src) copied_fields"
    by blast
  from T have s: "is_success (fst (store_gameStat example_engine example_clock example_faults
        (Some (JStr ''p1'')) 0 (''g1'', example_gameStat) []))
       = (\<not> gameStat_throws example_faults (Some (JStr ''p1'')) 0 (''g1'', example_gameStat))"
    by blast
  have t: "\<not> gameStat_throws example_faults (Some (JStr ''p1'')) 0 (''g1'', example_gameStat)"
    by code_simp
  have p: "parseFloat (example_gameStat ''pts'') = NaN" by code_simp
  have r: "parseFloat (example_gameStat ''reb'') = Fin 7" by code_simp
  have l: "example_gameStat ''longName'' = Some (JStr ''A. Player'')" by code_simp
  from n have "gameStatData example_engine ''g1'' (Some (JStr ''p1'')) example_gameStat ''points''
     = Some (JNum (parseFloat (example_gameStat ''pts'')))
   \<and> gameStatData example_engine ''g1'' (Some (JStr ''p1'')) example_gameStat ''rebounds''
       = Some (JNum (parseFloat (example_gameStat ''reb'')))"
    by (simp add: numeric_fields_def)
  moreover from c have "gameStatData example_engine ''g1'' (Some (JStr ''p1'')) example_gameStat ''playerName''
       = Some (JStr ''A. Player'')"
    by (simp add: copied_fields_def l)
  ultimately show ?thesis using s t p r by blast
qed

text \<open>
  A property that does not parse is not stored as \<open>null\<close> and is not left out: the data
  for the store hold the number NaN, and so does the row that a store without faults
  creates.
\<close>

theorem gameStat_fields_coerced_counterexample:
  "gameStatData example_engine ''g1'' (Some (JStr ''p1'')) example_gameStat ''points''
     = Some (JNum NaN)
   \<and> column ''points''
        (upsert_gameStat example_engine None 1 (Some (JStr ''p1'')) (''g1'', example_gameStat) [])
       = Inr [Some (JNum NaN)]"
  by code_simp

end
